theory Spec2Isabelle
  imports
    Main
    "HOL-Library.Char_ord"
    "HOL-Library.List_Lexorder"
    "HOL-Library.FSet"
    "HOL-Library.AList"
    "HOL-Library.State_Monad"
begin

section \<open>The academic collaboration network of red\_social\_academica.py\<close>

text \<open>
  The program keeps three module-level variables that make up the graph state:
  \<^verbatim>\<open>nodes: dict[str, dict]\<close>, \<^verbatim>\<open>collaborations: list[tuple[str, str]]\<close> and
  \<^verbatim>\<open>removed_nodes: set[str]\<close>. The two remaining globals
  (\<^verbatim>\<open>suggested_connections\<close>, \<^verbatim>\<open>visualization_mode\<close>) only steer the drawing and
  are left out, as are all Tk widgets and message boxes.

  Conventions of the embedding:
  \<^item> a function that reads or writes the globals is a computation in the state monad
    over the record \<open>store\<close>: every read of a global is a \<open>get_\<close>, every write
    a \<open>set_\<close>, and a function that returns after showing a warning returns
    \<open>Inl\<close> of that warning;
  \<^item> a Python \<^verbatim>\<open>str\<close> is a \<open>string\<close>, read as its UTF-8 bytes; the order of
    \<^verbatim>\<open>a <= b\<close> on strings (lexicographic by code point) is the lexicographic order
    on the byte lists, which is what \<open>Char_ord\<close> and \<open>List_Lexorder\<close> provide;
  \<^item> a Python \<^verbatim>\<open>dict\<close> keeps insertion order and the code iterates over it, so
    \<^verbatim>\<open>nodes\<close> is an association list; \<open>AList.update\<close> overwrites in place or
    appends, as \<^verbatim>\<open>nodes[k] = v\<close> does;
  \<^item> a Python \<^verbatim>\<open>set\<close> of interests is a finite set \<open>string fset\<close>;
  \<^item> a Python \<^verbatim>\<open>float\<close> is an exact rational \<open>rat\<close>: rounding is not modelled,
    the score formulas are. Two scores that are equal as rationals can differ as
    doubles, so the order of such entries in a sorted list, and which of them a cut
    keeps, is not what the properties below are about;
  \<^item> the functions of the \<^verbatim>\<open>networkx\<close> library that the code calls on a graph
    (\<^verbatim>\<open>degree_centrality\<close>, \<^verbatim>\<open>betweenness_centrality\<close>,
    \<^verbatim>\<open>number_connected_components\<close>) are parameters of the definitions that use
    them;
  \<^item> the text fields of the window are read by \<^verbatim>\<open>var.get().strip()\<close>; the
    arguments of the modelled functions are the values so read.
\<close>

subsection \<open>State\<close>

record info =
  carrera :: string
  intereses :: "string fset"

record store =
  nodes :: "(string \<times> info) list"
  collaborations :: "(string \<times> string) list"
  removed_nodes :: "string set"

type_synonym 'a prog = "(store, 'a) State_Monad.state"

definition get_nodes :: "(string \<times> info) list prog" where
  "get_nodes = State (\<lambda>s. (nodes s, s))"

definition get_collaborations :: "(string \<times> string) list prog" where
  "get_collaborations = State (\<lambda>s. (collaborations s, s))"

definition get_removed_nodes :: "string set prog" where
  "get_removed_nodes = State (\<lambda>s. (removed_nodes s, s))"

definition set_nodes :: "(string \<times> info) list \<Rightarrow> unit prog" where
  "set_nodes v = State (\<lambda>s. ((), s\<lparr>nodes := v\<rparr>))"

definition set_collaborations :: "(string \<times> string) list \<Rightarrow> unit prog" where
  "set_collaborations v = State (\<lambda>s. ((), s\<lparr>collaborations := v\<rparr>))"

definition set_removed_nodes :: "string set \<Rightarrow> unit prog" where
  "set_removed_nodes v = State (\<lambda>s. ((), s\<lparr>removed_nodes := v\<rparr>))"

text \<open>The result and the final store of a computation.\<close>

definition result_of :: "'a prog \<Rightarrow> store \<Rightarrow> 'a" where
  "result_of m s = fst (run_state m s)"

definition store_after :: "'a prog \<Rightarrow> store \<Rightarrow> store" where
  "store_after m s = snd (run_state m s)"

text \<open>\<^verbatim>\<open>list(d.keys())\<close> and \<^verbatim>\<open>k in d\<close> for the dictionary \<^verbatim>\<open>nodes\<close>.\<close>

definition keys :: "(string \<times> info) list \<Rightarrow> string list" where
  "keys d = map fst d"

subsection \<open>Utilities\<close>

definition normalize_pair :: "string \<Rightarrow> string \<Rightarrow> string \<times> string" where
  "normalize_pair a b = (if a \<le> b then (a, b) else (b, a))"

text \<open>
  \<^verbatim>\<open>xs[:n]\<close> for a Python integer \<open>n\<close>: a negative bound counts from the end.
\<close>

definition slice_to :: "int \<Rightarrow> 'a list \<Rightarrow> 'a list" where
  "slice_to n xs =
     (if 0 \<le> n then take (nat n) xs else take (length xs - nat (- n)) xs)"

text \<open>
  The loop nest
  \<^verbatim>\<open>for i, n1 in enumerate(node_list): for n2 in node_list[i+1:]\<close>
  runs its body on these pairs, in this order.
\<close>

fun pairs_after :: "'a list \<Rightarrow> ('a \<times> 'a) list" where
  "pairs_after [] = []"
| "pairs_after (n1 # rest) = map (Pair n1) rest @ pairs_after rest"

text \<open>\<^verbatim>\<open>sep.join(xs)\<close>.\<close>

fun join :: "string \<Rightarrow> string list \<Rightarrow> string" where
  "join sep [] = []"
| "join sep [x] = x"
| "join sep (x # y # ys) = x @ sep @ join sep (y # ys)"

subsection \<open>Interdisciplinary recommendation\<close>

definition calculate_interdisciplinary_score :: "string \<Rightarrow> string \<Rightarrow> rat prog" where
  "calculate_interdisciplinary_score n1 n2 = do {
     d \<leftarrow> get_nodes;
     case (map_of d n1, map_of d n2) of
       (Some info1, Some info2) \<Rightarrow>
         (let score = (if carrera info1 \<noteq> carrera info2 then 0 + 3 else 0);
              int1 = intereses info1;
              int2 = intereses info2
          in if int1 \<noteq> {||} \<or> int2 \<noteq> {||} then
               (let intersection = fcard (int1 |\<inter>| int2);
                    union = fcard (int1 |\<union>| int2)
                in if union > 0
                   then State_Monad.return (score + (of_nat intersection / of_nat union) * 2)
                   else State_Monad.return score)
             else State_Monad.return score)
     | _ \<Rightarrow> State_Monad.return 0
   }"

text \<open>
  The body of the inner loop: the entries that one pair appends to
  \<^verbatim>\<open>recommendations\<close>.
\<close>

definition recommend_body :: "string \<times> string \<Rightarrow> (string \<times> string \<times> rat) list prog" where
  "recommend_body p = (case p of (n1, n2) \<Rightarrow> do {
     cs \<leftarrow> get_collaborations;
     if normalize_pair n1 n2 \<notin> set cs then do {
       score \<leftarrow> calculate_interdisciplinary_score n1 n2;
       if score > 0 then State_Monad.return [(n1, n2, score)] else State_Monad.return []
     } else State_Monad.return []
   })"

text \<open>
  \<^verbatim>\<open>recommendations.sort(key=lambda x: x[2], reverse=True)\<close> is a stable sort in
  descending order of the score: entries with equal scores keep their order.
\<close>

definition recommend_interdisciplinary_connections ::
  "int \<Rightarrow> (string \<times> string \<times> rat) list prog" where
  "recommend_interdisciplinary_connections top_n = do {
     d \<leftarrow> get_nodes;
     let node_list = keys d;
     appended \<leftarrow> State_Monad.traverse_list recommend_body (pairs_after node_list);
     let recommendations = sort_key (\<lambda>(n1, n2, score). - score) (concat appended);
     State_Monad.return (slice_to top_n recommendations)
   }"

subsection \<open>The graph object of the networkx library\<close>

text \<open>
  \<^verbatim>\<open>nx.Graph()\<close> holds its nodes in insertion order and its undirected edges
  without repetition. \<^verbatim>\<open>add_node\<close> ignores a node that is present;
  \<^verbatim>\<open>add_edge(a, b)\<close> first adds both endpoints as nodes and ignores an edge that
  is present in either direction.
\<close>

record graph =
  g_nodes :: "string list"
  g_edges :: "(string \<times> string) list"

definition empty_graph :: graph where
  "empty_graph = \<lparr>g_nodes = [], g_edges = []\<rparr>"

definition add_node :: "string \<Rightarrow> graph \<Rightarrow> graph" where
  "add_node n G = (if n \<in> set (g_nodes G) then G else G\<lparr>g_nodes := g_nodes G @ [n]\<rparr>)"

definition has_edge :: "graph \<Rightarrow> string \<Rightarrow> string \<Rightarrow> bool" where
  "has_edge G a b \<longleftrightarrow> (a, b) \<in> set (g_edges G) \<or> (b, a) \<in> set (g_edges G)"

definition add_edge :: "string \<Rightarrow> string \<Rightarrow> graph \<Rightarrow> graph" where
  "add_edge a b G =
     (let G' = add_node b (add_node a G)
      in if has_edge G' a b then G' else G'\<lparr>g_edges := g_edges G' @ [(a, b)]\<rparr>)"

definition number_of_nodes :: "graph \<Rightarrow> nat" where
  "number_of_nodes G = length (g_nodes G)"

definition number_of_edges :: "graph \<Rightarrow> nat" where
  "number_of_edges G = length (g_edges G)"

text \<open>
  The construction of the active subgraph, which the source repeats verbatim in
  \<^verbatim>\<open>calculate_centrality_metrics\<close> and twice in \<^verbatim>\<open>run_simulation\<close>:
  \<^verbatim>\<open>
  G = nx.Graph()
  for n in nodes:
      if n not in removed_nodes: G.add_node(n)
  for a, b in collaborations:
      if a not in removed_nodes and b not in removed_nodes: G.add_edge(a, b)
  \<close>
\<close>

definition active_graph :: "store \<Rightarrow> graph" where
  "active_graph s =
     (let G1 = foldl (\<lambda>G n. if n \<notin> removed_nodes s then add_node n G else G)
                 empty_graph (keys (nodes s))
      in foldl (\<lambda>G (a, b). if a \<notin> removed_nodes s \<and> b \<notin> removed_nodes s
                            then add_edge a b G else G)
           G1 (collaborations s))"

definition build_active_graph :: "graph prog" where
  "build_active_graph = State (\<lambda>s. (active_graph s, s))"

subsection \<open>Resilience metrics\<close>

record metrics =
  nodos :: nat
  aristas :: nat
  componentes :: nat

text \<open>
  The first argument stands for \<^verbatim>\<open>nx.number_connected_components\<close>.
\<close>

definition calculate_network_metrics :: "(graph \<Rightarrow> nat) \<Rightarrow> graph \<Rightarrow> metrics" where
  "calculate_network_metrics number_connected_components G =
     (if number_of_nodes G = 0
      then \<lparr>nodos = 0, aristas = 0, componentes = 0\<rparr>
      else \<lparr>nodos = number_of_nodes G,
            aristas = number_of_edges G,
            componentes = number_connected_components G\<rparr>)"

subsection \<open>Centrality and gap-filling suggestions\<close>

record centrality =
  grado :: rat
  intermediacion :: rat
  score_total :: rat

text \<open>\<^verbatim>\<open>d.get(k, 0)\<close> on a dictionary of numbers.\<close>

definition get_or0 :: "(string \<rightharpoonup> rat) \<Rightarrow> string \<Rightarrow> rat" where
  "get_or0 d k = (case d k of Some v \<Rightarrow> v | None \<Rightarrow> 0)"

text \<open>
  The first two arguments stand for \<^verbatim>\<open>nx.degree_centrality\<close> and
  \<^verbatim>\<open>nx.betweenness_centrality\<close>, each returning a dictionary from node to number.
  The result dictionary is filled in the order of \<^verbatim>\<open>G.nodes()\<close>.
\<close>

definition calculate_centrality_metrics ::
  "(graph \<Rightarrow> string \<rightharpoonup> rat) \<Rightarrow> (graph \<Rightarrow> string \<rightharpoonup> rat) \<Rightarrow>
   (string \<times> centrality) list prog" where
  "calculate_centrality_metrics degree_centrality betweenness_centrality = do {
     G \<leftarrow> build_active_graph;
     if number_of_nodes G = 0 \<or> number_of_edges G = 0 then State_Monad.return []
     else
       (let degree_cent = degree_centrality G;
            betweenness_cent = betweenness_centrality G
        in State_Monad.return
             (map (\<lambda>node.
                     (node,
                      \<lparr>grado = get_or0 degree_cent node,
                       intermediacion = get_or0 betweenness_cent node,
                       score_total = get_or0 degree_cent node * (1 / 2)
                                     + get_or0 betweenness_cent node * (1 / 2)\<rparr>))
                (g_nodes G)))
   }"

text \<open>\<^verbatim>\<open>centrality.get(n, {}).get("score_total", 0)\<close>.\<close>

definition cent_of :: "(string \<times> centrality) list \<Rightarrow> string \<Rightarrow> rat" where
  "cent_of cent n = (case map_of cent n of Some c \<Rightarrow> score_total c | None \<Rightarrow> 0)"

text \<open>
  What the body of the inner loop of \<^verbatim>\<open>suggest_gap_filling_connections\<close> computes
  from the two records \<^verbatim>\<open>nodes[n1]\<close>, \<^verbatim>\<open>nodes[n2]\<close> and the centrality
  dictionary: the entry it appends, or nothing.
\<close>

definition gap_entry ::
  "(string \<times> centrality) list \<Rightarrow> string \<Rightarrow> info \<Rightarrow> string \<Rightarrow> info \<Rightarrow>
   (string \<times> string \<times> rat \<times> string) list" where
  "gap_entry cent n1 info1 n2 info2 =
     (let int1 = intereses info1;
          int2 = intereses info2;
          common = int1 |\<inter>| int2
      in if common \<noteq> {||} then
           (let similarity = of_nat (fcard common) / of_nat (max (fcard int1) (fcard int2));
                cent_bonus = (if cent \<noteq> []
                              then max (cent_of cent n1) (cent_of cent n2) * (1 / 2)
                              else 0);
                total_score = similarity + cent_bonus;
                reason = ''Intereses: '' @ join '', '' (sorted_list_of_fset common)
            in [(n1, n2, total_score, reason)])
         else [])"

text \<open>
  \<^verbatim>\<open>nodes[n1]\<close> raises \<^verbatim>\<open>KeyError\<close> for a name that is not a key; the loop only
  passes names taken from the keys.
\<close>

datatype py_error = KeyError

definition suggest_body ::
  "(string \<times> centrality) list \<Rightarrow> string \<times> string \<Rightarrow>
   (py_error + (string \<times> string \<times> rat \<times> string) list) prog" where
  "suggest_body cent p = (case p of (n1, n2) \<Rightarrow> do {
     cs \<leftarrow> get_collaborations;
     if normalize_pair n1 n2 \<notin> set cs then do {
       d \<leftarrow> get_nodes;
       case (map_of d n1, map_of d n2) of
         (Some info1, Some info2) \<Rightarrow> State_Monad.return (Inr (gap_entry cent n1 info1 n2 info2))
       | _ \<Rightarrow> State_Monad.return (Inl KeyError)
     } else State_Monad.return (Inr [])
   })"

text \<open>
  The results of the loop bodies put together: the first \<^verbatim>\<open>KeyError\<close> ends the
  function, otherwise the appended entries are concatenated.
\<close>

fun collect :: "(py_error + 'a list) list \<Rightarrow> py_error + 'a list" where
  "collect [] = Inr []"
| "collect (Inl e # rs) = Inl e"
| "collect (Inr xs # rs) = (case collect rs of Inl e \<Rightarrow> Inl e | Inr ys \<Rightarrow> Inr (xs @ ys))"

definition suggest_gap_filling_connections ::
  "(graph \<Rightarrow> string \<rightharpoonup> rat) \<Rightarrow> (graph \<Rightarrow> string \<rightharpoonup> rat) \<Rightarrow> int \<Rightarrow>
   (py_error + (string \<times> string \<times> rat \<times> string) list) prog" where
  "suggest_gap_filling_connections degree_centrality betweenness_centrality top_n = do {
     d \<leftarrow> get_nodes;
     rm \<leftarrow> get_removed_nodes;
     let node_list = filter (\<lambda>n. n \<notin> rm) (keys d);
     cent \<leftarrow> calculate_centrality_metrics degree_centrality betweenness_centrality;
     appended \<leftarrow> State_Monad.traverse_list (suggest_body cent) (pairs_after node_list);
     case collect appended of
       Inl e \<Rightarrow> State_Monad.return (Inl e)
     | Inr suggestions \<Rightarrow>
         State_Monad.return
           (Inr (slice_to top_n (sort_key (\<lambda>(n1, n2, score, reason). - score) suggestions)))
   }"

text \<open>
  The entries that one run of the loop body appends; the \<^verbatim>\<open>KeyError\<close> branch, which
  appends nothing, reads as the empty list.
\<close>

definition suggested_entries ::
  "store \<Rightarrow> (string \<times> centrality) list \<Rightarrow> string \<times> string \<Rightarrow>
   (string \<times> string \<times> rat \<times> string) list" where
  "suggested_entries s cent p =
     (case result_of (suggest_body cent p) s of Inr es \<Rightarrow> es | Inl e \<Rightarrow> [])"

subsection \<open>Mutations\<close>

text \<open>
  Each early \<^verbatim>\<open>return\<close> after a message box is an error value named after the
  message; none of them is preceded by a write.
\<close>

datatype error =
    Campos_obligatorios
  | Nodos_distintos
  | Nodos_deben_existir
  | Duplicado
  | Sin_cambios
  | Campo_vacio
  | Formato_invalido
  | Seleccione_un_nodo
  | No_disponible

definition add_or_update_node :: "string \<Rightarrow> string \<Rightarrow> string fset \<Rightarrow> (error + unit) prog" where
  "add_or_update_node nombre carrera_txt intereses_set =
     (if nombre = [] \<or> carrera_txt = [] then State_Monad.return (Inl Campos_obligatorios)
      else do {
        d \<leftarrow> get_nodes;
        set_nodes (AList.update nombre \<lparr>carrera = carrera_txt, intereses = intereses_set\<rparr> d);
        rm \<leftarrow> get_removed_nodes;
        set_removed_nodes (rm - {nombre});
        State_Monad.return (Inr ())
      })"

definition add_collaboration :: "string \<Rightarrow> string \<Rightarrow> (error + unit) prog" where
  "add_collaboration n1 n2 =
     (if n1 = [] \<or> n2 = [] then State_Monad.return (Inl Campos_obligatorios)
      else if n1 = n2 then State_Monad.return (Inl Nodos_distintos)
      else do {
        d \<leftarrow> get_nodes;
        if n1 \<notin> set (keys d) \<or> n2 \<notin> set (keys d)
        then State_Monad.return (Inl Nodos_deben_existir)
        else do {
          let pair = normalize_pair n1 n2;
          cs \<leftarrow> get_collaborations;
          if pair \<in> set cs then State_Monad.return (Inl Duplicado)
          else do {
            set_collaborations (cs @ [pair]);
            State_Monad.return (Inr ())
          }
        }
      })"

text \<open>\<^verbatim>\<open>collaborations.remove(pair)\<close> removes the first occurrence.\<close>

definition delete_collaboration :: "string \<Rightarrow> string \<Rightarrow> (error + unit) prog" where
  "delete_collaboration n1 n2 =
     (if n1 = [] \<or> n2 = [] then State_Monad.return (Inl Campos_obligatorios)
      else do {
        let pair = normalize_pair n1 n2;
        cs \<leftarrow> get_collaborations;
        if pair \<notin> set cs then State_Monad.return (Inl Sin_cambios)
        else do {
          set_collaborations (remove1 pair cs);
          State_Monad.return (Inr ())
        }
      })"

text \<open>
  \<^verbatim>\<open>apply_connection\<close> in the recommendation window; the argument is the list
  \<^verbatim>\<open>parts\<close> of the stripped, comma-separated pieces of the stripped entry, which
  is the one empty piece exactly when the entry is empty.
\<close>

definition apply_connection :: "string list \<Rightarrow> (error + unit) prog" where
  "apply_connection parts =
     (if parts = [[]] then State_Monad.return (Inl Campo_vacio)
      else case parts of
        [n1, n2] \<Rightarrow> do {
          d \<leftarrow> get_nodes;
          if n1 \<notin> set (keys d) \<or> n2 \<notin> set (keys d)
          then State_Monad.return (Inl Nodos_deben_existir)
          else do {
            let pair = normalize_pair n1 n2;
            cs \<leftarrow> get_collaborations;
            if pair \<in> set cs then State_Monad.return (Inl Duplicado)
            else do {
              set_collaborations (cs @ [pair]);
              State_Monad.return (Inr ())
            }
          }
        }
      | _ \<Rightarrow> State_Monad.return (Inl Formato_invalido))"

subsection \<open>Resilience simulation\<close>

text \<open>
  What \<^verbatim>\<open>run_simulation\<close> writes to the text widget: both metric dictionaries and
  the two differences (Python integers, so they may be negative).
\<close>

record simulation =
  sim_before :: metrics
  sim_after :: metrics
  sim_comp_change :: int
  sim_edge_change :: int

definition run_simulation :: "(graph \<Rightarrow> nat) \<Rightarrow> string \<Rightarrow> (error + simulation) prog" where
  "run_simulation number_connected_components node_name =
     (if node_name = [] then State_Monad.return (Inl Seleccione_un_nodo)
      else do {
        d \<leftarrow> get_nodes;
        rm \<leftarrow> get_removed_nodes;
        if node_name \<notin> set (keys d) \<or> node_name \<in> rm
        then State_Monad.return (Inl No_disponible)
        else do {
          G_before \<leftarrow> build_active_graph;
          let metrics_before = calculate_network_metrics number_connected_components G_before;
          set_removed_nodes (insert node_name rm);
          G_after \<leftarrow> build_active_graph;
          let metrics_after = calculate_network_metrics number_connected_components G_after;
          let comp_change = int (componentes metrics_after) - int (componentes metrics_before);
          let edge_change = int (aristas metrics_before) - int (aristas metrics_after);
          State_Monad.return
            (Inr \<lparr>sim_before = metrics_before,
                  sim_after = metrics_after,
                  sim_comp_change = comp_change,
                  sim_edge_change = edge_change\<rparr>)
        }
      })"

definition restore_node :: "string \<Rightarrow> unit prog" where
  "restore_node node_name = do {
     rm \<leftarrow> get_removed_nodes;
     if node_name \<in> rm then set_removed_nodes (rm - {node_name})
     else State_Monad.return ()
   }"

text \<open>
  \<^verbatim>\<open>reset_normal_mode\<close>, also behind the button that closes the resilience window:
  \<^verbatim>\<open>removed_nodes.clear()\<close>.
\<close>

definition reset_normal_mode :: "unit prog" where
  "reset_normal_mode = set_removed_nodes {}"

subsection \<open>Initial data and reachable stores\<close>

definition empty_store :: store where
  "empty_store = \<lparr>nodes = [], collaborations = [], removed_nodes = {}\<rparr>"

text \<open>
  The names and interests of the example data, as UTF-8: an accented letter is two
  bytes.
\<close>

definition example :: "(string \<times> string \<times> string fset) list" where
  "example =
     [(''Mar'' @ [CHR 0xC3, CHR 0xAD] @ ''a'', ''Ing.'',
         {|''IA'', ''Programaci'' @ [CHR 0xC3, CHR 0xB3] @ ''n'', ''Algoritmos''|}),
      (''Ana'', ''Ing.'', {|''Sistemas'', ''IA'', ''Bases de datos''|}),
      (''Luis'', ''Int.'', {|''Redes'', ''Seguridad''|}),
      (''Carlos'', ''Ing.'', {|''Programaci'' @ [CHR 0xC3, CHR 0xB3] @ ''n'', ''Web''|}),
      (''Sof'' @ [CHR 0xC3, CHR 0xAD] @ ''a'', ''Int.'',
         {|''Datos'', ''IA'', ''Estad'' @ [CHR 0xC3, CHR 0xAD] @ ''stica''|}),
      (''Elena'', ''Med.'',
         {|''Biolog'' @ [CHR 0xC3, CHR 0xAD] @ ''a'', ''Gen'' @ [CHR 0xC3, CHR 0xA9] @ ''tica''|}),
      (''Jorge'', ''Adm.'',
         {|''Gesti'' @ [CHR 0xC3, CHR 0xB3] @ ''n'', ''Econom'' @ [CHR 0xC3, CHR 0xAD] @ ''a''|}),
      (''Pedro'', ''Mat.'',
         {|[CHR 0xC3, CHR 0x81] @ ''lgebra'', ''Algoritmos'',
           ''L'' @ [CHR 0xC3, CHR 0xB3] @ ''gica''|}),
      (''Laura'', ''Eco.'',
         {|''Econom'' @ [CHR 0xC3, CHR 0xAD] @ ''a'',
           ''Estad'' @ [CHR 0xC3, CHR 0xAD] @ ''stica'', ''Datos''|})]"

definition example_pairs :: "(string \<times> string) list" where
  "example_pairs =
     [(''Ana'', ''Mar'' @ [CHR 0xC3, CHR 0xAD] @ ''a''),
      (''Carlos'', ''Mar'' @ [CHR 0xC3, CHR 0xAD] @ ''a''),
      (''Sof'' @ [CHR 0xC3, CHR 0xAD] @ ''a'', ''Ana''),
      (''Pedro'', ''Mar'' @ [CHR 0xC3, CHR 0xAD] @ ''a'')]"

definition seed_example_data :: "unit prog" where
  "seed_example_data = do {
     _ \<leftarrow> State_Monad.traverse_list
            (\<lambda>(nombre, carrera_txt, intereses_set). do {
               d \<leftarrow> get_nodes;
               set_nodes (AList.update nombre \<lparr>carrera = carrera_txt, intereses = intereses_set\<rparr> d)
             }) example;
     _ \<leftarrow> State_Monad.traverse_list
            (\<lambda>(a, b). do {
               cs \<leftarrow> get_collaborations;
               set_collaborations (cs @ [normalize_pair a b])
             }) example_pairs;
     State_Monad.return ()
   }"

text \<open>
  What the mutations keep true of the store: names are not empty, the keys of the
  dictionary are distinct, every stored collaboration is a canonical pair of existing
  names and is stored once, and only existing names are marked as removed.
\<close>

definition wf_store :: "store \<Rightarrow> bool" where
  "wf_store s \<longleftrightarrow>
     [] \<notin> set (keys (nodes s))
     \<and> distinct (keys (nodes s))
     \<and> (\<forall>(x, y) \<in> set (collaborations s).
           x \<le> y \<and> x \<in> set (keys (nodes s)) \<and> y \<in> set (keys (nodes s)))
     \<and> distinct (collaborations s)
     \<and> removed_nodes s \<subseteq> set (keys (nodes s))"

text \<open>
  The stores the program can be in: the module starts with empty globals and runs
  \<^verbatim>\<open>seed_example_data()\<close>; afterwards the globals change only through the
  callbacks of the window.
\<close>

inductive reachable :: "store \<Rightarrow> bool" where
  reach_init: "reachable (store_after seed_example_data empty_store)"
| reach_add_node: "reachable s \<Longrightarrow> reachable (store_after (add_or_update_node n c i) s)"
| reach_add_collab: "reachable s \<Longrightarrow> reachable (store_after (add_collaboration a b) s)"
| reach_del_collab: "reachable s \<Longrightarrow> reachable (store_after (delete_collaboration a b) s)"
| reach_apply: "reachable s \<Longrightarrow> reachable (store_after (apply_connection parts) s)"
| reach_simulate: "reachable s \<Longrightarrow> reachable (store_after (run_simulation ncc n) s)"
| reach_restore: "reachable s \<Longrightarrow> reachable (store_after (restore_node n) s)"
| reach_reset: "reachable s \<Longrightarrow> reachable (store_after reset_normal_mode s)"

subsection \<open>Example stores\<close>

text \<open>
  Two people of different disciplines who share one of three interests, and nobody
  else.
\<close>

definition two_people :: store where
  "two_people =
     \<lparr>nodes = [(''A'', \<lparr>carrera = ''eng'', intereses = {|''x'', ''y''|}\<rparr>),
               (''B'', \<lparr>carrera = ''med'', intereses = {|''y'', ''z''|}\<rparr>)],
      collaborations = [],
      removed_nodes = {}\<rparr>"

text \<open>The path \<open>A - B - C - D\<close>.\<close>

definition path4 :: store where
  "path4 =
     \<lparr>nodes = [(''A'', \<lparr>carrera = ''eng'', intereses = {||}\<rparr>),
               (''B'', \<lparr>carrera = ''eng'', intereses = {||}\<rparr>),
               (''C'', \<lparr>carrera = ''med'', intereses = {||}\<rparr>),
               (''D'', \<lparr>carrera = ''med'', intereses = {||}\<rparr>)],
      collaborations = [(''A'', ''B''), (''B'', ''C''), (''C'', ''D'')],
      removed_nodes = {}\<rparr>"

text \<open>
  A value for the parameter that stands for \<^verbatim>\<open>nx.number_connected_components\<close>,
  right on the graphs without cycles, which have as many components as they have
  nodes more than edges. It serves to run the simulation on such graphs.
\<close>

definition forest_components :: "graph \<Rightarrow> nat" where
  "forest_components G = number_of_nodes G - number_of_edges G"

text \<open>
  The store with the example data, and the stores after simulating the removal of
  Ana and then of Mar\'ia in it.
\<close>

definition Maria :: string where
  "Maria = ''Mar'' @ [CHR 0xC3, CHR 0xAD] @ ''a''"

definition Sofia :: string where
  "Sofia = ''Sof'' @ [CHR 0xC3, CHR 0xAD] @ ''a''"

definition seeded :: store where
  "seeded = store_after seed_example_data empty_store"

definition without_Ana :: store where
  "without_Ana = store_after (run_simulation forest_components ''Ana'') seeded"

definition without_Ana_Maria :: store where
  "without_Ana_Maria = store_after (run_simulation forest_components Maria) without_Ana"

text \<open>
  Degree and betweenness centrality of the path \<open>A - B - C - D\<close>, as values for the
  parameters that stand for \<^verbatim>\<open>nx.degree_centrality\<close> and
  \<^verbatim>\<open>nx.betweenness_centrality\<close>.
\<close>

definition path4_degree :: "graph \<Rightarrow> string \<rightharpoonup> rat" where
  "path4_degree G = map_of [(''A'', 1 / 3), (''B'', 2 / 3), (''C'', 2 / 3), (''D'', 1 / 3)]"

definition path4_betweenness :: "graph \<Rightarrow> string \<rightharpoonup> rat" where
  "path4_betweenness G = map_of [(''A'', 0), (''B'', 2 / 3), (''C'', 2 / 3), (''D'', 0)]"

text \<open>
  Four people with one collaboration: \<open>A\<close> and \<open>C\<close> share two interests, \<open>B\<close>
  and \<open>C\<close> one, \<open>D\<close> none with anybody; with the two centralities of its graph.
\<close>

definition gap_example :: store where
  "gap_example =
     \<lparr>nodes = [(''A'', \<lparr>carrera = ''eng'', intereses = {|''x'', ''y''|}\<rparr>),
               (''B'', \<lparr>carrera = ''med'', intereses = {|''y'', ''z''|}\<rparr>),
               (''C'', \<lparr>carrera = ''med'', intereses = {|''y'', ''x''|}\<rparr>),
               (''D'', \<lparr>carrera = ''eco'', intereses = {|''w''|}\<rparr>)],
      collaborations = [(''A'', ''B'')],
      removed_nodes = {}\<rparr>"

definition gap_example_degree :: "graph \<Rightarrow> string \<rightharpoonup> rat" where
  "gap_example_degree G = map_of [(''A'', 1 / 3), (''B'', 1 / 3), (''C'', 0), (''D'', 0)]"

definition gap_example_betweenness :: "graph \<Rightarrow> string \<rightharpoonup> rat" where
  "gap_example_betweenness G = map_of [(''A'', 0), (''B'', 0), (''C'', 0), (''D'', 0)]"

section \<open>Properties\<close>

subsection \<open>Running the basic computations\<close>

lemma run_get_nodes [simp]: "run_state get_nodes s = (nodes s, s)"
  by (simp add: get_nodes_def)
lemma run_get_collaborations [simp]: "run_state get_collaborations s = (collaborations s, s)"
  by (simp add: get_collaborations_def)
lemma run_get_removed_nodes [simp]: "run_state get_removed_nodes s = (removed_nodes s, s)"
  by (simp add: get_removed_nodes_def)
lemma run_set_nodes [simp]: "run_state (set_nodes v) s = ((), s\<lparr>nodes := v\<rparr>)"
  by (simp add: set_nodes_def)
lemma run_set_collaborations [simp]:
  "run_state (set_collaborations v) s = ((), s\<lparr>collaborations := v\<rparr>)"
  by (simp add: set_collaborations_def)
lemma run_set_removed_nodes [simp]:
  "run_state (set_removed_nodes v) s = ((), s\<lparr>removed_nodes := v\<rparr>)"
  by (simp add: set_removed_nodes_def)
lemma run_build_active_graph [simp]: "run_state build_active_graph s = (active_graph s, s)"
  by (simp add: build_active_graph_def)

text \<open>A loop whose body leaves the store alone.\<close>

lemma traverse_list_frame:
  assumes "\<And>x s. store_after (f x) s = s"
  shows "run_state (State_Monad.traverse_list f xs) s = (map (\<lambda>x. result_of (f x) s) xs, s)"
proof (induction xs)
  case Nil
  show ?case by simp
next
  case (Cons x xs)
  have "run_state (f x) s = (result_of (f x) s, s)"
    using assms [of x s] by (simp add: result_of_def store_after_def prod_eq_iff)
  with Cons show ?case by simp
qed

lemma score_frame: "store_after (calculate_interdisciplinary_score n1 n2) s = s"
  by (simp add: store_after_def calculate_interdisciplinary_score_def Let_def
      split: option.split)

lemma run_score:
  "run_state (calculate_interdisciplinary_score n1 n2) s =
     (result_of (calculate_interdisciplinary_score n1 n2) s, s)"
  using score_frame [of n1 n2 s] by (simp add: result_of_def store_after_def prod_eq_iff)

lemma run_recommend_body:
  "run_state (recommend_body (n1, n2)) s =
     (if normalize_pair n1 n2 \<notin> set (collaborations s) \<and>
         0 < result_of (calculate_interdisciplinary_score n1 n2) s
      then [(n1, n2, result_of (calculate_interdisciplinary_score n1 n2) s)] else [], s)"
  by (simp add: recommend_body_def run_score)

lemma recommend_body_frame: "store_after (recommend_body p) s = s"
  by (cases p) (simp add: store_after_def run_recommend_body)

lemma run_recommend:
  "run_state (recommend_interdisciplinary_connections top_n) s =
     (slice_to top_n (sort_key (\<lambda>(n1, n2, score). - score)
        (concat (map (\<lambda>p. result_of (recommend_body p) s) (pairs_after (keys (nodes s)))))), s)"
  by (simp add: recommend_interdisciplinary_connections_def
      traverse_list_frame [of recommend_body, OF recommend_body_frame])

lemma set_slice_to: "set (slice_to n xs) \<subseteq> set xs"
  by (auto simp: slice_to_def dest: in_set_takeD)

lemma recommended_not_collaboration:
  assumes "(n1, n2, sc) \<in> set (result_of (recommend_interdisciplinary_connections top_n) s)"
  shows "normalize_pair n1 n2 \<notin> set (collaborations s)
       \<and> sc = result_of (calculate_interdisciplinary_score n1 n2) s \<and> 0 < sc 
       \<and> (n1, n2) \<in> set (pairs_after (keys (nodes s)))"
proof -
  from assms have "(n1, n2, sc) \<in> set (concat (map (\<lambda>p. result_of (recommend_body p) s) (pairs_after (keys (nodes s)))))"
    using set_slice_to by (fastforce simp: result_of_def run_recommend)
  then obtain a b where p: "(a, b) \<in> set (pairs_after (keys (nodes s)))"
    and "(n1, n2, sc) \<in> set (result_of (recommend_body (a, b)) s)" by auto
  then have "(n1, n2, sc) \<in> set (fst (run_state (recommend_body (a, b)) s))"
    by (simp add: result_of_def)
  with p show ?thesis
    by (simp add: run_recommend_body result_of_def split: if_splits)
qed

subsection \<open>The mutations and what they preserve\<close>

lemma normalize_pair_commute: "normalize_pair a b = normalize_pair b a"
  by (auto simp: normalize_pair_def)

lemma normalize_pair_cases: "normalize_pair a b = (a, b) \<or> normalize_pair a b = (b, a)"
  by (simp add: normalize_pair_def)

lemma normalize_pair_le: "normalize_pair a b = (x, y) \<Longrightarrow> x \<le> y"
  by (auto simp: normalize_pair_def split: if_splits)

lemma run_add_or_update_node:
  "run_state (add_or_update_node n c i) s =
     (if n = [] \<or> c = [] then (Inl Campos_obligatorios, s)
      else (Inr (), s\<lparr>nodes := AList.update n \<lparr>carrera = c, intereses = i\<rparr> (nodes s),
                      removed_nodes := removed_nodes s - {n}\<rparr>))"
  by (simp add: add_or_update_node_def)

lemma run_add_collaboration:
  "run_state (add_collaboration n1 n2) s =
     (if n1 = [] \<or> n2 = [] then (Inl Campos_obligatorios, s)
      else if n1 = n2 then (Inl Nodos_distintos, s)
      else if n1 \<notin> set (keys (nodes s)) \<or> n2 \<notin> set (keys (nodes s))
        then (Inl Nodos_deben_existir, s)
      else if normalize_pair n1 n2 \<in> set (collaborations s) then (Inl Duplicado, s)
      else (Inr (), s\<lparr>collaborations := collaborations s @ [normalize_pair n1 n2]\<rparr>))"
  by (simp add: add_collaboration_def Let_def)

lemma run_delete_collaboration:
  "run_state (delete_collaboration n1 n2) s =
     (if n1 = [] \<or> n2 = [] then (Inl Campos_obligatorios, s)
      else if normalize_pair n1 n2 \<notin> set (collaborations s) then (Inl Sin_cambios, s)
      else (Inr (), s\<lparr>collaborations := remove1 (normalize_pair n1 n2) (collaborations s)\<rparr>))"
  by (simp add: delete_collaboration_def Let_def)

lemma run_apply_connection:
  "run_state (apply_connection parts) s =
     (if parts = [[]] then (Inl Campo_vacio, s)
      else case parts of
        [n1, n2] \<Rightarrow>
          if n1 \<notin> set (keys (nodes s)) \<or> n2 \<notin> set (keys (nodes s))
            then (Inl Nodos_deben_existir, s)
          else if normalize_pair n1 n2 \<in> set (collaborations s) then (Inl Duplicado, s)
          else (Inr (), s\<lparr>collaborations := collaborations s @ [normalize_pair n1 n2]\<rparr>)
      | _ \<Rightarrow> (Inl Formato_invalido, s))"
  by (simp add: apply_connection_def Let_def split: list.split)

lemma run_run_simulation:
  "run_state (run_simulation ncc n) s =
     (if n = [] then (Inl Seleccione_un_nodo, s)
      else if n \<notin> set (keys (nodes s)) \<or> n \<in> removed_nodes s then (Inl No_disponible, s)
      else (let s' = s\<lparr>removed_nodes := insert n (removed_nodes s)\<rparr>;
                mb = calculate_network_metrics ncc (active_graph s);
                ma = calculate_network_metrics ncc (active_graph s')
            in (Inr \<lparr>sim_before = mb, sim_after = ma,
                     sim_comp_change = int (componentes ma) - int (componentes mb),
                     sim_edge_change = int (aristas mb) - int (aristas ma)\<rparr>, s')))"
  by (simp add: run_simulation_def Let_def)

lemma run_restore_node:
  "run_state (restore_node n) s =
     ((), if n \<in> removed_nodes s then s\<lparr>removed_nodes := removed_nodes s - {n}\<rparr> else s)"
  by (simp add: restore_node_def)

lemma run_reset_normal_mode:
  "run_state reset_normal_mode s = ((), s\<lparr>removed_nodes := {}\<rparr>)"
  by (simp add: reset_normal_mode_def)

lemma keys_update: "set (keys (AList.update k v d)) = insert k (set (keys d))"
  by (simp add: keys_def update_keys) auto

lemma distinct_keys_update: "distinct (keys d) \<Longrightarrow> distinct (keys (AList.update k v d))"
  by (simp add: keys_def distinct_update)

lemma wf_add_or_update_node: "wf_store s \<Longrightarrow> wf_store (store_after (add_or_update_node n c i) s)"
  by (auto simp: store_after_def run_add_or_update_node wf_store_def keys_update
        distinct_keys_update)

lemma wf_append_collab:
  assumes "wf_store s" "n1 \<in> set (keys (nodes s))" "n2 \<in> set (keys (nodes s))"
    "normalize_pair n1 n2 \<notin> set (collaborations s)"
  shows "wf_store (s\<lparr>collaborations := collaborations s @ [normalize_pair n1 n2]\<rparr>)"
  using assms normalize_pair_cases [of n1 n2] 
  by (auto simp: wf_store_def dest: normalize_pair_le)

lemma wf_add_collaboration: "wf_store s \<Longrightarrow> wf_store (store_after (add_collaboration a b) s)"
  by (simp add: store_after_def run_add_collaboration wf_append_collab)

lemma wf_apply_connection: "wf_store s \<Longrightarrow> wf_store (store_after (apply_connection parts) s)"
  by (simp add: store_after_def run_apply_connection wf_append_collab split: list.split)

lemma wf_delete_collaboration:
  "wf_store s \<Longrightarrow> wf_store (store_after (delete_collaboration a b) s)"
  by (auto simp: store_after_def run_delete_collaboration wf_store_def dest: notin_set_remove1)

lemma wf_run_simulation: "wf_store s \<Longrightarrow> wf_store (store_after (run_simulation ncc n) s)"
  by (auto simp: store_after_def run_run_simulation wf_store_def Let_def)

lemma wf_restore_node: "wf_store s \<Longrightarrow> wf_store (store_after (restore_node n) s)"
  by (auto simp: store_after_def run_restore_node wf_store_def)

lemma wf_reset_normal_mode: "wf_store s \<Longrightarrow> wf_store (store_after reset_normal_mode s)"
  by (auto simp: store_after_def run_reset_normal_mode wf_store_def)

lemma seeded_nodes:
  "nodes (store_after seed_example_data empty_store) =
     map (\<lambda>(n, c, i). (n, \<lparr>carrera = c, intereses = i\<rparr>)) example"
  by (simp add: store_after_def seed_example_data_def example_def example_pairs_def
      empty_store_def)

lemma seeded_collaborations:
  "collaborations (store_after seed_example_data empty_store) =
     map (\<lambda>(a, b). normalize_pair a b) example_pairs"
  by (simp add: store_after_def seed_example_data_def example_def example_pairs_def
      empty_store_def)

lemma seeded_removed_nodes: "removed_nodes (store_after seed_example_data empty_store) = {}"
  by (simp add: store_after_def seed_example_data_def example_def example_pairs_def
      empty_store_def)

lemma wf_seeded: "wf_store (store_after seed_example_data empty_store)"
  by (simp add: wf_store_def seeded_nodes seeded_collaborations seeded_removed_nodes keys_def
      example_def example_pairs_def normalize_pair_def)

lemma reachable_wf: "reachable s \<Longrightarrow> wf_store s"
  by (induction rule: reachable.induct)
    (simp_all add: wf_seeded wf_add_or_update_node wf_add_collaboration wf_apply_connection
      wf_delete_collaboration wf_run_simulation wf_restore_node wf_reset_normal_mode)

lemma remove1_append_new: "p \<notin> set cs \<Longrightarrow> remove1 p (cs @ [p]) = cs"
  by (simp add: remove1_append)

lemma filter_absent: "(\<And>x. x \<in> set xs \<Longrightarrow> \<not> P x) \<Longrightarrow> filter P xs = []"
  by (induction xs) auto

lemma no_orientation_stored:
  assumes wf: "wf_store s" and new: "normalize_pair a b \<notin> set (collaborations s)"
  shows "(a, b) \<notin> set (collaborations s) \<and> (b, a) \<notin> set (collaborations s)"
proof -
  have canon: "\<And>x y. (x, y) \<in> set (collaborations s) \<Longrightarrow> x \<le> y"
    using wf by (auto simp: wf_store_def)
  show ?thesis
  proof (cases "a \<le> b")
    case True
    with new have 1: "(a, b) \<notin> set (collaborations s)" by (simp add: normalize_pair_def)
    have "(b, a) \<notin> set (collaborations s)"
    proof
      assume h: "(b, a) \<in> set (collaborations s)"
      then have "b \<le> a" by (rule canon)
      with True have "a = b" by simp
      with h 1 show False by simp
    qed
    with 1 show ?thesis by simp
  next
    case False
    with new have 1: "(b, a) \<notin> set (collaborations s)" by (simp add: normalize_pair_def)
    have "(a, b) \<notin> set (collaborations s)"
      using canon [of a b] False by blast
    with 1 show ?thesis by simp
  qed
qed

subsection \<open>The interdisciplinary score\<close>

text \<open>
  Claim C2. For every pair of names, \<^verbatim>\<open>calculate_interdisciplinary_score\<close> returns 0
  if either name is not a key of \<^verbatim>\<open>nodes\<close>; otherwise it returns 3 if the two
  disciplines differ (else 0) plus twice the Jaccard index of the two interest sets,
  where that term is 0 when both sets are empty and the union is non-empty (so the
  division is defined) in every other case; the result is never negative.
\<close>

theorem score_spec:
  "(n1 \<notin> set (keys (nodes s)) \<or> n2 \<notin> set (keys (nodes s)) \<longrightarrow>
      result_of (calculate_interdisciplinary_score n1 n2) s = 0)
   \<and> (\<forall>info1 info2.
        map_of (nodes s) n1 = Some info1 \<and> map_of (nodes s) n2 = Some info2 \<longrightarrow>
        result_of (calculate_interdisciplinary_score n1 n2) s =
          (if carrera info1 \<noteq> carrera info2 then 3 else 0)
          + (if intereses info1 = {||} \<and> intereses info2 = {||} then 0
             else 2 * (of_nat (fcard (intereses info1 |\<inter>| intereses info2))
                       / of_nat (fcard (intereses info1 |\<union>| intereses info2))))
        \<and> (intereses info1 \<noteq> {||} \<or> intereses info2 \<noteq> {||} \<longrightarrow>
             0 < fcard (intereses info1 |\<union>| intereses info2)))
   \<and> 0 \<le> result_of (calculate_interdisciplinary_score n1 n2) s"
proof (intro conjI allI impI)
  assume "n1 \<notin> set (keys (nodes s)) \<or> n2 \<notin> set (keys (nodes s))"
  then have "map_of (nodes s) n1 = None \<or> map_of (nodes s) n2 = None"
    by (simp add: keys_def map_of_eq_None_iff)
  then show "result_of (calculate_interdisciplinary_score n1 n2) s = 0"
    by (auto simp: result_of_def calculate_interdisciplinary_score_def split: option.split)
next
  fix info1 info2
  assume h: "map_of (nodes s) n1 = Some info1 \<and> map_of (nodes s) n2 = Some info2"
  have pos: "intereses info1 \<noteq> {||} \<or> intereses info2 \<noteq> {||} \<Longrightarrow>
             0 < fcard (intereses info1 |\<union>| intereses info2)"
    by (cases "fcard (intereses info1 |\<union>| intereses info2)") auto
  from h pos show "result_of (calculate_interdisciplinary_score n1 n2) s =
          (if carrera info1 \<noteq> carrera info2 then 3 else 0)
          + (if intereses info1 = {||} \<and> intereses info2 = {||} then 0
             else 2 * (of_nat (fcard (intereses info1 |\<inter>| intereses info2))
                       / of_nat (fcard (intereses info1 |\<union>| intereses info2))))"
    by (auto simp: result_of_def calculate_interdisciplinary_score_def Let_def)
  assume "intereses info1 \<noteq> {||} \<or> intereses info2 \<noteq> {||}"
  then show "0 < fcard (intereses info1 |\<union>| intereses info2)" by (rule pos)
next
  show "0 \<le> result_of (calculate_interdisciplinary_score n1 n2) s"
    by (auto simp: result_of_def calculate_interdisciplinary_score_def Let_def
        split: option.split)
qed

theorem score_spec_witness:
  "result_of (calculate_interdisciplinary_score ''A'' ''B'') two_people = 3 + 2 * (1 / 3)
   \<and> result_of (calculate_interdisciplinary_score ''A'' ''Z'') two_people = 0"
  using score_spec [of "''A''" two_people "''B''"] score_spec [of "''A''" two_people "''Z''"]
  by (simp add: two_people_def keys_def fcard_finsert_if fcard_fempty)

text \<open>
  Claim C7. The score is symmetric: for every store and every two names,
  \<^verbatim>\<open>calculate_interdisciplinary_score(p1, p2)\<close> equals
  \<^verbatim>\<open>calculate_interdisciplinary_score(p2, p1)\<close>.
\<close>

theorem score_symmetric:
  "result_of (calculate_interdisciplinary_score p1 p2) s =
   result_of (calculate_interdisciplinary_score p2 p1) s"
  by (auto simp: result_of_def calculate_interdisciplinary_score_def Let_def
      inf_commute sup_commute split: option.split)

theorem score_symmetric_witness:
  "result_of (calculate_interdisciplinary_score ''B'' ''A'') two_people =
     result_of (calculate_interdisciplinary_score ''A'' ''B'') two_people
   \<and> result_of (calculate_interdisciplinary_score ''A'' ''B'') two_people = 3 + 2 * (1 / 3)"
proof -
  have "result_of (calculate_interdisciplinary_score ''A'' ''B'') two_people = 3 + 2 * (1 / 3)"
    by (simp add: result_of_def calculate_interdisciplinary_score_def two_people_def
        fcard_finsert_if fcard_fempty)
  with score_symmetric [of "''B''" "''A''" two_people] show ?thesis by simp
qed

subsection \<open>Adding, deleting and adding a collaboration again\<close>

text \<open>
  Claim C6. In every reachable store, for two distinct existing names \<open>a\<close>, \<open>b\<close>
  whose canonical pair is not stored: \<^verbatim>\<open>add_collaboration\<close>, then
  \<^verbatim>\<open>delete_collaboration\<close>, then \<^verbatim>\<open>add_collaboration\<close> all succeed, whichever of
  the orders \<open>(a, b)\<close>, \<open>(b, a)\<close> each call is given, and afterwards the edge is
  stored exactly once (as the canonical pair, and in no other orientation); the
  dictionary of people and the removal set are as before.
\<close>

theorem collaboration_round_trip:
  assumes reach: "reachable s"
    and a: "a \<in> set (keys (nodes s))" and b: "b \<in> set (keys (nodes s))" and ab: "a \<noteq> b"
    and new: "normalize_pair a b \<notin> set (collaborations s)"
    and o1: "(x1, y1) = (a, b) \<or> (x1, y1) = (b, a)"
    and o2: "(x2, y2) = (a, b) \<or> (x2, y2) = (b, a)"
    and o3: "(x3, y3) = (a, b) \<or> (x3, y3) = (b, a)"
  shows "\<exists>s'. run_state (do {
                   r1 \<leftarrow> add_collaboration x1 y1;
                   r2 \<leftarrow> delete_collaboration x2 y2;
                   r3 \<leftarrow> add_collaboration x3 y3;
                   State_Monad.return (r1, r2, r3)
                 }) s = ((Inr (), Inr (), Inr ()), s')
          \<and> nodes s' = nodes s \<and> removed_nodes s' = removed_nodes s
          \<and> count_list (collaborations s') (normalize_pair a b) = 1
          \<and> length (filter (\<lambda>(x, y). x = a \<and> y = b \<or> x = b \<and> y = a) (collaborations s')) = 1"
proof -
  let ?p = "normalize_pair a b"
  let ?s1 = "s\<lparr>collaborations := collaborations s @ [?p]\<rparr>"
  have wf: "wf_store s" using reach by (rule reachable_wf)
  then have ne: "a \<noteq> []" "b \<noteq> []" using a b by (auto simp: wf_store_def)
  have n1: "normalize_pair x1 y1 = ?p" and n2: "normalize_pair x2 y2 = ?p"
    and n3: "normalize_pair x3 y3 = ?p"
    using o1 o2 o3 normalize_pair_commute [of b a] by auto
  have ok1: "x1 \<noteq> [] \<and> y1 \<noteq> [] \<and> x1 \<noteq> y1 \<and> x1 \<in> set (keys (nodes s)) \<and> y1 \<in> set (keys (nodes s))"
    using o1 a b ab ne by auto
  have ok2: "x2 \<noteq> [] \<and> y2 \<noteq> []" using o2 ne by auto
  have ok3: "x3 \<noteq> [] \<and> y3 \<noteq> [] \<and> x3 \<noteq> y3 \<and> x3 \<in> set (keys (nodes s)) \<and> y3 \<in> set (keys (nodes s))"
    using o3 a b ab ne by auto
  have step1: "run_state (add_collaboration x1 y1) s = (Inr (), ?s1)"
    using ok1 new by (simp add: run_add_collaboration n1)
  have step2: "run_state (delete_collaboration x2 y2) ?s1 = (Inr (), s)"
    using ok2 new by (simp add: run_delete_collaboration n2 remove1_append_new)
  have step3: "run_state (add_collaboration x3 y3) s = (Inr (), ?s1)"
    using ok3 new by (simp add: run_add_collaboration n3)
  have run: "run_state (do {
                   r1 \<leftarrow> add_collaboration x1 y1;
                   r2 \<leftarrow> delete_collaboration x2 y2;
                   r3 \<leftarrow> add_collaboration x3 y3;
                   State_Monad.return (r1, r2, r3)
                 }) s = ((Inr (), Inr (), Inr ()), ?s1)"
    by (simp add: step1 step2 step3)
  have cnt: "count_list (collaborations ?s1) ?p = 1"
    using new by (simp add: count_list_0_iff)
  have "(a, b) \<notin> set (collaborations s) \<and> (b, a) \<notin> set (collaborations s)"
    using wf new by (rule no_orientation_stored)
  then have "filter (\<lambda>(x, y). x = a \<and> y = b \<or> x = b \<and> y = a) (collaborations s) = []"
    by (intro filter_absent) auto
  then have len: "length (filter (\<lambda>(x, y). x = a \<and> y = b \<or> x = b \<and> y = a)
                    (collaborations ?s1)) = 1"
    using normalize_pair_cases [of a b] by auto
  from run cnt len show ?thesis by (intro exI [of _ ?s1]) simp
qed

theorem collaboration_round_trip_witness:
  "\<exists>s'. run_state (do {
            r1 \<leftarrow> add_collaboration ''Luis'' ''Elena'';
            r2 \<leftarrow> delete_collaboration ''Elena'' ''Luis'';
            r3 \<leftarrow> add_collaboration ''Luis'' ''Elena'';
            State_Monad.return (r1, r2, r3)
          }) (store_after seed_example_data empty_store) = ((Inr (), Inr (), Inr ()), s')
     \<and> nodes s' = nodes (store_after seed_example_data empty_store)
     \<and> removed_nodes s' = removed_nodes (store_after seed_example_data empty_store)
     \<and> count_list (collaborations s') (''Elena'', ''Luis'') = 1
     \<and> length (filter (\<lambda>(x, y). x = ''Luis'' \<and> y = ''Elena'' \<or> x = ''Elena'' \<and> y = ''Luis'')
          (collaborations s')) = 1"
  using collaboration_round_trip [OF reach_init, of "''Luis''" "''Elena''"
      "''Luis''" "''Elena''" "''Elena''" "''Luis''" "''Luis''" "''Elena''"]
  by (simp add: seeded_nodes seeded_collaborations keys_def example_def example_pairs_def
      normalize_pair_def)

subsection \<open>The active subgraph\<close>

lemma g_edges_add_node [simp]: "g_edges (add_node n G) = g_edges G"
  by (simp add: add_node_def)

lemma set_g_nodes_add_node [simp]: "set (g_nodes (add_node n G)) = insert n (set (g_nodes G))"
  by (auto simp: add_node_def)

lemma has_edge_add_node [simp]: "has_edge (add_node n G) x y = has_edge G x y"
  by (simp add: has_edge_def)

lemma add_node_present: "n \<in> set (g_nodes G) \<Longrightarrow> add_node n G = G"
  by (simp add: add_node_def)

lemma set_g_nodes_add_edge [simp]:
  "set (g_nodes (add_edge a b G)) = insert a (insert b (set (g_nodes G)))"
  by (auto simp: add_edge_def Let_def)

lemma has_edge_add_edge:
  "has_edge (add_edge a b G) x y \<longleftrightarrow> has_edge G x y \<or> (x = a \<and> y = b) \<or> (x = b \<and> y = a)"
  by (auto simp: add_edge_def Let_def has_edge_def)

lemma g_nodes_add_edge_present:
  "a \<in> set (g_nodes G) \<Longrightarrow> b \<in> set (g_nodes G) \<Longrightarrow> g_nodes (add_edge a b G) = g_nodes G"
  by (simp add: add_edge_def Let_def add_node_present)

text \<open>The first loop.\<close>

lemma node_loop_edges:
  "g_edges (foldl (\<lambda>G n. if n \<notin> rm then add_node n G else G) G ns) = g_edges G"
  by (induction ns arbitrary: G) auto

lemma node_loop_nodes:
  "set (g_nodes (foldl (\<lambda>G n. if n \<notin> rm then add_node n G else G) G ns)) =
     set (g_nodes G) \<union> {n \<in> set ns. n \<notin> rm}"
  by (induction ns arbitrary: G) auto

lemma node_loop_nodes_distinct:
  "distinct ns \<Longrightarrow> set ns \<inter> set (g_nodes G) = {} \<Longrightarrow>
   g_nodes (foldl (\<lambda>G n. if n \<notin> rm then add_node n G else G) G ns) =
     g_nodes G @ filter (\<lambda>n. n \<notin> rm) ns"
proof (induction ns arbitrary: G)
  case Nil
  show ?case by simp
next
  case (Cons n ns)
  show ?case
  proof (cases "n \<in> rm")
    case True
    with Cons show ?thesis by simp
  next
    case False
    have "set ns \<inter> set (g_nodes (add_node n G)) = {}"
      using Cons.prems by auto
    with Cons.IH [of "add_node n G"] Cons.prems False show ?thesis
      by (simp add: add_node_def)
  qed
qed

text \<open>The second loop.\<close>

lemma edge_loop_has_edge:
  "has_edge (foldl (\<lambda>G (a, b). if a \<notin> rm \<and> b \<notin> rm then add_edge a b G else G) G cs) x y
   \<longleftrightarrow> has_edge G x y
       \<or> (x \<notin> rm \<and> y \<notin> rm \<and> ((x, y) \<in> set cs \<or> (y, x) \<in> set cs))"
proof (induction cs arbitrary: G)
  case Nil
  show ?case by simp
next
  case (Cons c cs)
  obtain a b where c: "c = (a, b)" by (cases c)
  show ?case
    by (auto simp: c Cons.IH has_edge_add_edge)
qed

lemma edge_loop_nodes:
  "set (g_nodes (foldl (\<lambda>G (a, b). if a \<notin> rm \<and> b \<notin> rm then add_edge a b G else G) G cs)) =
     set (g_nodes G) \<union> {x. \<exists>(a, b) \<in> set cs. a \<notin> rm \<and> b \<notin> rm \<and> (x = a \<or> x = b)}"
proof (induction cs arbitrary: G)
  case Nil
  show ?case by simp
next
  case (Cons c cs)
  obtain a b where c: "c = (a, b)" by (cases c)
  show ?case
    by (auto simp: c Cons.IH)
qed

lemma edge_loop_nodes_present:
  "(\<And>a b. (a, b) \<in> set cs \<Longrightarrow> a \<notin> rm \<Longrightarrow> b \<notin> rm \<Longrightarrow>
      a \<in> set (g_nodes G) \<and> b \<in> set (g_nodes G)) \<Longrightarrow>
   g_nodes (foldl (\<lambda>G (a, b). if a \<notin> rm \<and> b \<notin> rm then add_edge a b G else G) G cs) = g_nodes G"
proof (induction cs arbitrary: G)
  case Nil
  show ?case by simp
next
  case (Cons c cs)
  obtain a b where c: "c = (a, b)" by (cases c)
  show ?case
  proof (cases "a \<notin> rm \<and> b \<notin> rm")
    case True
    then have ab: "a \<in> set (g_nodes G)" "b \<in> set (g_nodes G)"
      using Cons.prems [of a b] by (simp_all add: c)
    have "g_nodes (foldl (\<lambda>G (a, b). if a \<notin> rm \<and> b \<notin> rm then add_edge a b G else G)
                    (add_edge a b G) cs) = g_nodes (add_edge a b G)"
      using Cons.prems by (intro Cons.IH) (auto simp: c)
    with True ab show ?thesis by (simp add: c g_nodes_add_edge_present)
  next
    case False
    have "g_nodes (foldl (\<lambda>G (a, b). if a \<notin> rm \<and> b \<notin> rm then add_edge a b G else G) G cs)
          = g_nodes G"
      using Cons.prems by (intro Cons.IH) (auto simp: c)
    with False show ?thesis by (auto simp: c)
  qed
qed

lemma has_edge_active_graph:
  "has_edge (active_graph s) x y \<longleftrightarrow>
     x \<notin> removed_nodes s \<and> y \<notin> removed_nodes s
     \<and> ((x, y) \<in> set (collaborations s) \<or> (y, x) \<in> set (collaborations s))"
  by (simp add: active_graph_def Let_def edge_loop_has_edge)
     (simp add: has_edge_def node_loop_edges empty_graph_def)

lemma set_g_nodes_active_graph:
  "set (g_nodes (active_graph s)) =
     {n \<in> set (keys (nodes s)). n \<notin> removed_nodes s}
     \<union> {x. \<exists>(a, b) \<in> set (collaborations s).
             a \<notin> removed_nodes s \<and> b \<notin> removed_nodes s \<and> (x = a \<or> x = b)}"
  by (simp add: active_graph_def Let_def edge_loop_nodes node_loop_nodes empty_graph_def)

lemma g_nodes_active_graph_wf:
  assumes "wf_store s"
  shows "g_nodes (active_graph s) = filter (\<lambda>n. n \<notin> removed_nodes s) (keys (nodes s))"
proof -
  let ?G1 = "foldl (\<lambda>G n. if n \<notin> removed_nodes s then add_node n G else G)
               empty_graph (keys (nodes s))"
  have G1: "g_nodes ?G1 = filter (\<lambda>n. n \<notin> removed_nodes s) (keys (nodes s))"
    using assms node_loop_nodes_distinct [of "keys (nodes s)" empty_graph "removed_nodes s"]
    by (simp add: wf_store_def empty_graph_def)
  have "g_nodes (active_graph s) = g_nodes ?G1"
    unfolding active_graph_def Let_def
  proof (rule edge_loop_nodes_present)
    fix a b
    assume "(a, b) \<in> set (collaborations s)" "a \<notin> removed_nodes s" "b \<notin> removed_nodes s"
    with assms show "a \<in> set (g_nodes ?G1) \<and> b \<in> set (g_nodes ?G1)"
      by (auto simp: G1 wf_store_def)
  qed
  with G1 show ?thesis by simp
qed

subsection \<open>Network metrics and the removal simulation\<close>

text \<open>
  Claim C8. For a graph without nodes \<^verbatim>\<open>calculate_network_metrics\<close> reports 0
  components (whatever the library function would say), 0 nodes and 0 edges. The
  active subgraph of a well-formed store is such a graph when every name in
  \<^verbatim>\<open>nodes\<close> is removed, in particular when there is none.
\<close>

theorem empty_graph_metrics:
  "(number_of_nodes G = 0 \<longrightarrow>
      calculate_network_metrics ncc G = \<lparr>nodos = 0, aristas = 0, componentes = 0\<rparr>)
   \<and> (wf_store s \<and> set (keys (nodes s)) \<subseteq> removed_nodes s \<longrightarrow>
        number_of_nodes (active_graph s) = 0
        \<and> calculate_network_metrics ncc (active_graph s) =
            \<lparr>nodos = 0, aristas = 0, componentes = 0\<rparr>)"
proof (intro conjI impI)
  assume "wf_store s \<and> set (keys (nodes s)) \<subseteq> removed_nodes s"
  then have "g_nodes (active_graph s) = []"
    by (auto simp: g_nodes_active_graph_wf filter_empty_conv)
  then show "number_of_nodes (active_graph s) = 0" by (simp add: number_of_nodes_def)
  then show "calculate_network_metrics ncc (active_graph s) =
            \<lparr>nodos = 0, aristas = 0, componentes = 0\<rparr>"
    by (simp add: calculate_network_metrics_def)
qed (simp add: calculate_network_metrics_def)

theorem empty_graph_metrics_witness:
  "number_of_nodes empty_graph = 0
   \<and> calculate_network_metrics (\<lambda>G. 1) empty_graph =
       \<lparr>nodos = 0, aristas = 0, componentes = 0\<rparr>
   \<and> wf_store (path4\<lparr>removed_nodes := {''A'', ''B'', ''C'', ''D''}\<rparr>)
   \<and> calculate_network_metrics (\<lambda>G. 1)
        (active_graph (path4\<lparr>removed_nodes := {''A'', ''B'', ''C'', ''D''}\<rparr>)) =
       \<lparr>nodos = 0, aristas = 0, componentes = 0\<rparr>"
proof -
  have wf: "wf_store (path4\<lparr>removed_nodes := {''A'', ''B'', ''C'', ''D''}\<rparr>)"
    by (simp add: wf_store_def path4_def keys_def)
  have n: "number_of_nodes empty_graph = 0"
    by (simp add: number_of_nodes_def empty_graph_def)
  from wf n
    empty_graph_metrics [of empty_graph "\<lambda>G. 1"
      "path4\<lparr>removed_nodes := {''A'', ''B'', ''C'', ''D''}\<rparr>"]
  show ?thesis by (simp add: path4_def keys_def)
qed

text \<open>
  Claim C5. \<^verbatim>\<open>run_simulation\<close> on a name that is not a key of \<^verbatim>\<open>nodes\<close> or is
  already removed ends with a warning and leaves the store as it was (the warning is
  ``no est\'a disponible'', or ``seleccione un nodo'' for the empty name). For every
  other non-empty name it succeeds. Whenever it succeeds, the new store differs from
  the old one only by the name being added to \<^verbatim>\<open>removed_nodes\<close>, the metrics before
  are those of the active subgraph of the old store, the metrics after those of the
  active subgraph of the new store, the component difference is after minus before
  and the edge difference is before minus after.
\<close>

theorem run_simulation_spec:
  "(n \<notin> set (keys (nodes s)) \<or> n \<in> removed_nodes s \<longrightarrow>
      run_state (run_simulation ncc n) s =
        (Inl (if n = [] then Seleccione_un_nodo else No_disponible), s))
   \<and> (n \<noteq> [] \<and> n \<in> set (keys (nodes s)) \<and> n \<notin> removed_nodes s \<longrightarrow>
        (\<exists>r. run_state (run_simulation ncc n) s =
                (Inr r, s\<lparr>removed_nodes := insert n (removed_nodes s)\<rparr>)))
   \<and> (\<forall>r s'. run_state (run_simulation ncc n) s = (Inr r, s') \<longrightarrow>
        s' = s\<lparr>removed_nodes := insert n (removed_nodes s)\<rparr>
        \<and> sim_before r = calculate_network_metrics ncc (active_graph s)
        \<and> sim_after r = calculate_network_metrics ncc (active_graph s')
        \<and> sim_comp_change r =
            int (componentes (sim_after r)) - int (componentes (sim_before r))
        \<and> sim_edge_change r = int (aristas (sim_before r)) - int (aristas (sim_after r)))"
  by (auto simp: run_run_simulation Let_def)

lemma active_graph_path4:
  "active_graph path4 =
     \<lparr>g_nodes = [''A'', ''B'', ''C'', ''D''],
      g_edges = [(''A'', ''B''), (''B'', ''C''), (''C'', ''D'')]\<rparr>"
  by (simp add: active_graph_def path4_def keys_def empty_graph_def add_node_def add_edge_def
      has_edge_def)

lemma active_graph_path4_without_B:
  "active_graph (path4\<lparr>removed_nodes := {''B''}\<rparr>) =
     \<lparr>g_nodes = [''A'', ''C'', ''D''], g_edges = [(''C'', ''D'')]\<rparr>"
  by (simp add: active_graph_def path4_def keys_def empty_graph_def add_node_def add_edge_def
      has_edge_def)

theorem run_simulation_spec_witness:
  "run_state (run_simulation forest_components ''Z'') path4 = (Inl No_disponible, path4)
   \<and> run_state (run_simulation forest_components ''B'') path4 =
       (Inr \<lparr>sim_before = \<lparr>nodos = 4, aristas = 3, componentes = 1\<rparr>,
             sim_after = \<lparr>nodos = 3, aristas = 1, componentes = 2\<rparr>,
             sim_comp_change = 1, sim_edge_change = 2\<rparr>,
        path4\<lparr>removed_nodes := {''B''}\<rparr>)"
proof -
  have rm: "removed_nodes path4 = {}" and ks: "keys (nodes path4) = [''A'', ''B'', ''C'', ''D'']"
    by (simp_all add: path4_def keys_def)
  from run_simulation_spec [of "''Z''" path4 forest_components]
  have 1: "run_state (run_simulation forest_components ''Z'') path4 = (Inl No_disponible, path4)"
    by (simp add: rm ks)
  from run_simulation_spec [of "''B''" path4 forest_components]
  obtain r where r: "run_state (run_simulation forest_components ''B'') path4 =
      (Inr r, path4\<lparr>removed_nodes := {''B''}\<rparr>)"
    by (auto simp: rm ks)
  with run_simulation_spec [of "''B''" path4 forest_components]
  have "sim_before r = \<lparr>nodos = 4, aristas = 3, componentes = 1\<rparr>
      \<and> sim_after r = \<lparr>nodos = 3, aristas = 1, componentes = 2\<rparr>
      \<and> sim_comp_change r = 1 \<and> sim_edge_change r = 2"
    by (simp add: rm active_graph_path4 active_graph_path4_without_B
        calculate_network_metrics_def forest_components_def number_of_nodes_def
        number_of_edges_def)
  then have "r = \<lparr>sim_before = \<lparr>nodos = 4, aristas = 3, componentes = 1\<rparr>,
             sim_after = \<lparr>nodos = 3, aristas = 1, componentes = 2\<rparr>,
             sim_comp_change = 1, sim_edge_change = 2\<rparr>"
    by (cases r) simp
  with 1 r show ?thesis by simp
qed

text \<open>
  The removal stays: a name in \<^verbatim>\<open>removed_nodes\<close> is still there after every
  operation other than \<^verbatim>\<open>restore_node\<close> of that name, \<^verbatim>\<open>reset_normal_mode\<close> and
  \<^verbatim>\<open>add_or_update_node\<close> of that name.
\<close>

lemma removal_persists:
  assumes "x \<in> removed_nodes s"
  shows "x \<in> removed_nodes (store_after (add_collaboration a b) s)"
    and "x \<in> removed_nodes (store_after (delete_collaboration a b) s)"
    and "x \<in> removed_nodes (store_after (apply_connection parts) s)"
    and "x \<in> removed_nodes (store_after (run_simulation ncc n) s)"
    and "n \<noteq> x \<Longrightarrow> x \<in> removed_nodes (store_after (restore_node n) s)"
    and "n \<noteq> x \<Longrightarrow> x \<in> removed_nodes (store_after (add_or_update_node n c i) s)"
  using assms
  by (simp_all add: store_after_def run_add_collaboration run_delete_collaboration
      run_apply_connection run_run_simulation run_restore_node run_add_or_update_node Let_def
      split: list.split)

subsection \<open>Removing and restoring keeps the collaborations\<close>

lemma seeded_keys:
  "keys (nodes seeded) = [Maria, ''Ana'', ''Luis'', ''Carlos'', ''Sof'' @ [CHR 0xC3, CHR 0xAD] @ ''a'',
     ''Elena'', ''Jorge'', ''Pedro'', ''Laura'']"
  by (simp add: seeded_def seeded_nodes keys_def example_def Maria_def)

lemma seeded_collabs:
  "collaborations seeded = [(''Ana'', Maria), (''Carlos'', Maria),
      (''Ana'', ''Sof'' @ [CHR 0xC3, CHR 0xAD] @ ''a''), (Maria, ''Pedro'')]"
  by (simp add: seeded_def seeded_collaborations example_pairs_def Maria_def normalize_pair_def)

lemma without_Ana_eq: "without_Ana = seeded\<lparr>removed_nodes := {''Ana''}\<rparr>"
  by (simp add: without_Ana_def store_after_def run_run_simulation seeded_keys Let_def Maria_def)
     (simp add: seeded_def seeded_removed_nodes)

lemma without_Ana_Maria_eq: "without_Ana_Maria = seeded\<lparr>removed_nodes := {Maria, ''Ana''}\<rparr>"
  by (simp add: without_Ana_Maria_def without_Ana_eq store_after_def run_run_simulation
      seeded_keys Let_def) (simp add: Maria_def)

lemma reachable_without_Ana_Maria: "reachable without_Ana \<and> reachable without_Ana_Maria"
  unfolding without_Ana_Maria_def without_Ana_def seeded_def
  by (intro conjI reach_simulate reach_init)

text \<open>
  Claim C10, as stated, fails: in the reachable store where Ana and Mar\'ia are both
  removed, Ana is in \<^verbatim>\<open>removed_nodes\<close> and the collaboration (Ana, Mar\'ia) is stored,
  but after \<^verbatim>\<open>restore_node\<close> of Ana the edge is not in the active subgraph, because
  Mar\'ia is still removed.
\<close>

theorem restore_counterexample:
  "reachable without_Ana_Maria
   \<and> ''Ana'' \<in> removed_nodes without_Ana_Maria
   \<and> (''Ana'', Maria) \<in> set (collaborations without_Ana_Maria)
   \<and> \<not> has_edge (active_graph (store_after (restore_node ''Ana'') without_Ana_Maria)) ''Ana'' Maria"
  by (simp add: reachable_without_Ana_Maria)
     (simp add: without_Ana_Maria_eq seeded_collabs store_after_def run_restore_node
       has_edge_active_graph Maria_def)

text \<open>
  Claim C10, amended. \<^verbatim>\<open>run_simulation\<close>, \<^verbatim>\<open>restore_node\<close> and
  \<^verbatim>\<open>reset_normal_mode\<close> never change \<^verbatim>\<open>collaborations\<close>. For a removed name
  \<open>x\<close>, every stored collaboration touching \<open>x\<close> is outside the active subgraph,
  is still stored after \<^verbatim>\<open>restore_node\<close> of \<open>x\<close>, and is then an edge of the active
  subgraph provided its other endpoint is not removed.
\<close>

theorem removal_keeps_collaborations:
  "collaborations (store_after (run_simulation ncc n) s) = collaborations s
   \<and> collaborations (store_after (restore_node n) s) = collaborations s
   \<and> collaborations (store_after reset_normal_mode s) = collaborations s
   \<and> (x \<in> removed_nodes s \<and> (a, b) \<in> set (collaborations s) \<and> (x = a \<or> x = b) \<longrightarrow>
        \<not> has_edge (active_graph s) a b
        \<and> (a, b) \<in> set (collaborations (store_after (restore_node x) s))
        \<and> (a \<notin> removed_nodes s - {x} \<and> b \<notin> removed_nodes s - {x} \<longrightarrow>
             has_edge (active_graph (store_after (restore_node x) s)) a b))"
  by (auto simp: store_after_def run_run_simulation run_restore_node run_reset_normal_mode
      Let_def has_edge_active_graph)

theorem removal_keeps_collaborations_witness:
  "collaborations (store_after (run_simulation forest_components ''Ana'') seeded) = collaborations seeded
   \<and> ''Ana'' \<in> removed_nodes without_Ana
   \<and> (''Ana'', Maria) \<in> set (collaborations without_Ana)
   \<and> \<not> has_edge (active_graph without_Ana) ''Ana'' Maria
   \<and> has_edge (active_graph (store_after (restore_node ''Ana'') without_Ana)) ''Ana'' Maria"
  using removal_keeps_collaborations [of forest_components "''Ana''" seeded]
    removal_keeps_collaborations [of _ _ without_Ana "''Ana''" "''Ana''" Maria]
  by (simp add: without_Ana_eq seeded_collabs Maria_def)

subsection \<open>Centrality\<close>

lemma run_calculate_centrality_metrics:
  "run_state (calculate_centrality_metrics dc bc) s =
     (result_of (calculate_centrality_metrics dc bc) s, s)"
  by (simp add: result_of_def calculate_centrality_metrics_def Let_def)

lemma map_of_tabulate: "map_of (map (\<lambda>k. (k, f k)) ks) k = (if k \<in> set ks then Some (f k) else None)"
  by (induction ks) auto

text \<open>
  Claim C4. \<^verbatim>\<open>calculate_centrality_metrics\<close> returns the empty dictionary when the
  active subgraph has no nodes or no edges. Otherwise its keys are exactly the nodes
  of the active subgraph, in their order, and the entry of each node holds the
  library's degree centrality, the library's betweenness centrality and, as the
  combined score, half the first plus half the second. In a well-formed store the
  nodes of the active subgraph are the names of \<^verbatim>\<open>nodes\<close> that are not removed.
\<close>

theorem centrality_spec:
  "(number_of_nodes (active_graph s) = 0 \<or> number_of_edges (active_graph s) = 0 \<longrightarrow>
      result_of (calculate_centrality_metrics dc bc) s = [])
   \<and> (number_of_nodes (active_graph s) \<noteq> 0 \<and> number_of_edges (active_graph s) \<noteq> 0 \<longrightarrow>
        map fst (result_of (calculate_centrality_metrics dc bc) s) = g_nodes (active_graph s)
        \<and> (\<forall>n \<in> set (g_nodes (active_graph s)).
             \<exists>c. map_of (result_of (calculate_centrality_metrics dc bc) s) n = Some c
                \<and> grado c = get_or0 (dc (active_graph s)) n
                \<and> intermediacion c = get_or0 (bc (active_graph s)) n
                \<and> score_total c = (1 / 2) * grado c + (1 / 2) * intermediacion c))
   \<and> (wf_store s \<longrightarrow>
        g_nodes (active_graph s) = filter (\<lambda>n. n \<notin> removed_nodes s) (keys (nodes s)))"
proof (intro conjI impI ballI)
  assume "number_of_nodes (active_graph s) = 0 \<or> number_of_edges (active_graph s) = 0"
  then show "result_of (calculate_centrality_metrics dc bc) s = []"
    by (auto simp: result_of_def calculate_centrality_metrics_def)
next
  assume h: "number_of_nodes (active_graph s) \<noteq> 0 \<and> number_of_edges (active_graph s) \<noteq> 0"
  then have r: "result_of (calculate_centrality_metrics dc bc) s =
      map (\<lambda>node. (node,
             \<lparr>grado = get_or0 (dc (active_graph s)) node,
              intermediacion = get_or0 (bc (active_graph s)) node,
              score_total = get_or0 (dc (active_graph s)) node * (1 / 2)
                            + get_or0 (bc (active_graph s)) node * (1 / 2)\<rparr>))
        (g_nodes (active_graph s))"
    by (simp add: result_of_def calculate_centrality_metrics_def Let_def)
  show "map fst (result_of (calculate_centrality_metrics dc bc) s) = g_nodes (active_graph s)"
    by (simp add: r comp_def)
  fix n
  assume "n \<in> set (g_nodes (active_graph s))"
  then show "\<exists>c. map_of (result_of (calculate_centrality_metrics dc bc) s) n = Some c
                \<and> grado c = get_or0 (dc (active_graph s)) n
                \<and> intermediacion c = get_or0 (bc (active_graph s)) n
                \<and> score_total c = (1 / 2) * grado c + (1 / 2) * intermediacion c"
    by (simp add: r map_of_tabulate)
next
  assume "wf_store s"
  then show "g_nodes (active_graph s) = filter (\<lambda>n. n \<notin> removed_nodes s) (keys (nodes s))"
    by (rule g_nodes_active_graph_wf)
qed

lemma wf_path4: "wf_store path4"
  by (simp add: wf_store_def path4_def keys_def)

lemma wf_two_people: "wf_store two_people"
  by (simp add: wf_store_def two_people_def keys_def)

lemma active_graph_two_people:
  "active_graph two_people = \<lparr>g_nodes = [''A'', ''B''], g_edges = []\<rparr>"
  by (simp add: active_graph_def two_people_def keys_def empty_graph_def add_node_def)

theorem centrality_spec_witness:
  "result_of (calculate_centrality_metrics path4_degree path4_betweenness) two_people = []
   \<and> map fst (result_of (calculate_centrality_metrics path4_degree path4_betweenness) path4)
       = [''A'', ''B'', ''C'', ''D'']
   \<and> (\<exists>c. map_of (result_of (calculate_centrality_metrics path4_degree path4_betweenness) path4)
            ''B'' = Some c
          \<and> grado c = 2 / 3 \<and> intermediacion c = 2 / 3 \<and> score_total c = 2 / 3)
   \<and> g_nodes (active_graph path4) = [''A'', ''B'', ''C'', ''D'']"
proof -
  have 1: "result_of (calculate_centrality_metrics path4_degree path4_betweenness) two_people = []"
    using centrality_spec [of two_people path4_degree path4_betweenness]
    by (simp add: active_graph_two_people number_of_edges_def)
  note path = centrality_spec [of path4 path4_degree path4_betweenness]
  have 2: "map fst (result_of (calculate_centrality_metrics path4_degree path4_betweenness) path4)
       = [''A'', ''B'', ''C'', ''D'']"
    using path by (simp add: active_graph_path4 number_of_nodes_def number_of_edges_def)
  obtain c where c:
    "map_of (result_of (calculate_centrality_metrics path4_degree path4_betweenness) path4) ''B''
       = Some c"
    "grado c = 2 / 3" "intermediacion c = 2 / 3"
    "score_total c = (1 / 2) * grado c + (1 / 2) * intermediacion c"
    using path
    by (auto simp: active_graph_path4 number_of_nodes_def number_of_edges_def get_or0_def
        path4_degree_def path4_betweenness_def)
  then have 3: "score_total c = 2 / 3" by simp
  have 4: "g_nodes (active_graph path4) = [''A'', ''B'', ''C'', ''D'']"
    using path wf_path4 by (simp add: path4_def keys_def)
  from 1 2 c 3 4 show ?thesis by blast
qed

subsection \<open>Gap-filling suggestions\<close>

lemma run_suggest_body:
  "run_state (suggest_body cent (n1, n2)) s =
     (if normalize_pair n1 n2 \<notin> set (collaborations s)
      then (case (map_of (nodes s) n1, map_of (nodes s) n2) of
              (Some info1, Some info2) \<Rightarrow> Inr (gap_entry cent n1 info1 n2 info2)
            | _ \<Rightarrow> Inl KeyError)
      else Inr [], s)"
  by (simp add: suggest_body_def split: option.split)

lemma suggest_body_frame: "store_after (suggest_body cent p) s = s"
  by (cases p) (simp add: store_after_def run_suggest_body)

lemma pairs_after_subset: "(a, b) \<in> set (pairs_after xs) \<Longrightarrow> a \<in> set xs \<and> b \<in> set xs"
  by (induction xs) auto

lemma length_pairs_after_le: "length (concat (map f (pairs_after xs))) \<le> length (pairs_after xs)"
  if "\<And>p. length (f p) \<le> 1"
proof -
  have "length (concat (map f ps)) \<le> length ps" for ps
  proof (induction ps)
    case Nil
    show ?case by simp
  next
    case (Cons p ps)
    with that [of p] show ?case by simp
  qed
  then show ?thesis .
qed

lemma key_has_info: "n \<in> set (keys d) \<Longrightarrow> \<exists>i. map_of d n = Some i"
  by (cases "map_of d n") (auto simp: keys_def map_of_eq_None_iff)

lemma suggest_body_no_error:
  assumes "n1 \<in> set (keys (nodes s))" "n2 \<in> set (keys (nodes s))"
  shows "result_of (suggest_body cent (n1, n2)) s = Inr (suggested_entries s cent (n1, n2))"
  using key_has_info [OF assms(1)] key_has_info [OF assms(2)]
  by (auto simp: suggested_entries_def result_of_def run_suggest_body)

lemma collect_all_Inr: "collect (map (\<lambda>x. Inr (f x)) xs) = Inr (concat (map f xs))"
  by (induction xs) auto

lemma collect_suggest_bodies:
  assumes "set ps \<subseteq> set (keys (nodes s)) \<times> set (keys (nodes s))"
  shows "collect (map (\<lambda>p. result_of (suggest_body cent p) s) ps) =
           Inr (concat (map (suggested_entries s cent) ps))"
proof -
  have "map (\<lambda>p. result_of (suggest_body cent p) s) ps =
        map (\<lambda>p. Inr (suggested_entries s cent p)) ps"
    using assms by (intro map_cong refl) (auto simp: suggest_body_no_error)
  then show ?thesis by (simp only: collect_all_Inr)
qed

lemma run_suggest:
  "run_state (suggest_gap_filling_connections dc bc top_n) s =
     (Inr (slice_to top_n (sort_key (\<lambda>(n1, n2, score, reason). - score)
        (concat (map (suggested_entries s (result_of (calculate_centrality_metrics dc bc) s))
           (pairs_after (filter (\<lambda>n. n \<notin> removed_nodes s) (keys (nodes s)))))))), s)"
proof -
  let ?act = "filter (\<lambda>n. n \<notin> removed_nodes s) (keys (nodes s))"
  let ?cent = "result_of (calculate_centrality_metrics dc bc) s"
  have "set (pairs_after ?act) \<subseteq> set (keys (nodes s)) \<times> set (keys (nodes s))"
    by (auto dest: pairs_after_subset)
  then have "collect (map (\<lambda>p. result_of (suggest_body ?cent p) s) (pairs_after ?act)) =
      Inr (concat (map (suggested_entries s ?cent) (pairs_after ?act)))"
    by (rule collect_suggest_bodies)
  then show ?thesis
    by (simp add: suggest_gap_filling_connections_def run_calculate_centrality_metrics
        traverse_list_frame [of "suggest_body ?cent", OF suggest_body_frame])
qed

lemma suggested_entries_eq:
  assumes "map_of (nodes s) n1 = Some info1" "map_of (nodes s) n2 = Some info2"
  shows "suggested_entries s cent (n1, n2) =
     (if normalize_pair n1 n2 \<notin> set (collaborations s)
      then gap_entry cent n1 info1 n2 info2 else [])"
  using assms by (simp add: suggested_entries_def result_of_def run_suggest_body)

lemma suggested_entries_names:
  "(a, b, sc, r) \<in> set (suggested_entries s cent p) \<Longrightarrow> p = (a, b)"
  by (cases p)
     (auto simp: suggested_entries_def result_of_def run_suggest_body gap_entry_def Let_def
       split: if_splits option.splits)

lemma length_suggested_entries: "length (suggested_entries s cent p) \<le> 1"
  by (cases p)
     (auto simp: suggested_entries_def result_of_def run_suggest_body gap_entry_def Let_def
       split: option.splits)

lemma slice_to_all: "int (length xs) \<le> n \<Longrightarrow> slice_to n xs = xs"
  by (simp add: slice_to_def)

lemma cent_of_cases:
  "cent_of cent n = (case map_of cent n of None \<Rightarrow> 0 | Some c \<Rightarrow> score_total c)"
  by (simp add: cent_of_def split: option.split)

lemma gap_entry_nonempty:
  assumes "intereses info1 |\<inter>| intereses info2 \<noteq> {||}"
  shows "gap_entry cent n1 info1 n2 info2 =
     [(n1, n2,
       of_nat (fcard (intereses info1 |\<inter>| intereses info2))
         / of_nat (max (fcard (intereses info1)) (fcard (intereses info2)))
       + (1 / 2) * max (cent_of cent n1) (cent_of cent n2),
       ''Intereses: '' @ join '', '' (sorted_list_of_fset (intereses info1 |\<inter>| intereses info2)))]"
proof (cases "cent = []")
  case True
  then have "cent_of cent n1 = 0" "cent_of cent n2 = 0" by (simp_all add: cent_of_def)
  with assms True show ?thesis by (simp add: gap_entry_def Let_def)
next
  case False
  with assms show ?thesis by (simp add: gap_entry_def Let_def)
qed

lemma gap_entry_empty:
  "intereses info1 |\<inter>| intereses info2 = {||} \<Longrightarrow> gap_entry cent n1 info1 n2 info2 = []"
  by (simp add: gap_entry_def)

lemma length_suggested_entries_eq:
  "length (suggested_entries s cent (a, b)) =
     (if normalize_pair a b \<notin> set (collaborations s)
         \<and> (case (map_of (nodes s) a, map_of (nodes s) b) of
               (Some i, Some j) \<Rightarrow> intereses i |\<inter>| intereses j \<noteq> {||}
             | _ \<Rightarrow> False)
      then 1 else 0)"
  by (auto simp: suggested_entries_def result_of_def run_suggest_body gap_entry_def Let_def
      split: option.splits)

lemma length_concat_filter:
  assumes "\<And>p. length (f p) = (if P p then 1 else 0)"
  shows "length (concat (map f ps)) = length (filter P ps)"
  by (induction ps) (simp_all add: assms)

lemma number_of_suggestions:
  "length (concat (map (suggested_entries s cent) ps)) =
     length (filter (\<lambda>(a, b). normalize_pair a b \<notin> set (collaborations s)
         \<and> (case (map_of (nodes s) a, map_of (nodes s) b) of
               (Some i, Some j) \<Rightarrow> intereses i |\<inter>| intereses j \<noteq> {||}
             | _ \<Rightarrow> False)) ps)"
proof (rule length_concat_filter)
  fix p
  show "length (suggested_entries s cent p) =
     (if (case p of (a, b) \<Rightarrow> normalize_pair a b \<notin> set (collaborations s)
         \<and> (case (map_of (nodes s) a, map_of (nodes s) b) of
               (Some i, Some j) \<Rightarrow> intereses i |\<inter>| intereses j \<noteq> {||}
             | _ \<Rightarrow> False)) then 1 else 0)"
    by (cases p) (simp only: length_suggested_entries_eq prod.case)
qed

lemma length_slice_to:
  "length (slice_to n xs) =
     (if 0 \<le> n then min (nat n) (length xs) else length xs - nat (- n))"
  by (auto simp: slice_to_def)

text \<open>
  Claim C3. Take a pair \<open>(n1, n2)\<close> that the loops of
  \<^verbatim>\<open>suggest_gap_filling_connections\<close> enumerate (both names active, \<open>n1\<close> before
  \<open>n2\<close>) and that is not a collaboration, and let \<open>k\<close> be the number of
  enumerated pairs that are not collaborations and share an interest, that is, the
  number of suggestions before the cut. The function returns a list, without raising.
  If the two people share no interest, no entry of the list is for the pair. Every
  entry of the list for the pair has the score
  \<open>|common| / max |interests1| |interests2|\<close> plus half the greater of the two
  combined centralities, where a name without an entry in the centrality dictionary
  counts 0, and the reason ``Intereses: '' followed by the common interests, sorted
  and joined by a comma and a space. If the two share an interest and \<open>k \<le> top_n\<close>,
  the pair has an entry. The list has \<open>min top_n k\<close> entries (\<open>k - |top_n|\<close> for a
  negative \<open>top_n\<close>), and each of them is for an enumerated pair that is not a
  collaboration.
\<close>

theorem gap_filling_spec:
  assumes enum: "(n1, n2) \<in> set (pairs_after
                    (filter (\<lambda>n. n \<notin> removed_nodes s) (keys (nodes s))))"
    and new: "normalize_pair n1 n2 \<notin> set (collaborations s)"
    and i1: "map_of (nodes s) n1 = Some info1"
    and i2: "map_of (nodes s) n2 = Some info2"
    and k: "k = length (filter
                (\<lambda>(a, b). normalize_pair a b \<notin> set (collaborations s)
                   \<and> (case (map_of (nodes s) a, map_of (nodes s) b) of
                         (Some i, Some j) \<Rightarrow> intereses i |\<inter>| intereses j \<noteq> {||}
                       | _ \<Rightarrow> False))
                (pairs_after (filter (\<lambda>n. n \<notin> removed_nodes s) (keys (nodes s)))))"
  shows "\<exists>out. result_of (suggest_gap_filling_connections dc bc top_n) s = Inr out
     \<and> (intereses info1 |\<inter>| intereses info2 = {||} \<longrightarrow>
          (\<forall>sc r. (n1, n2, sc, r) \<notin> set out))
     \<and> (\<forall>sc r. (n1, n2, sc, r) \<in> set out \<longrightarrow>
          sc = of_nat (fcard (intereses info1 |\<inter>| intereses info2))
                 / of_nat (max (fcard (intereses info1)) (fcard (intereses info2)))
               + (1 / 2) * max (case map_of (result_of (calculate_centrality_metrics dc bc) s) n1 of
                                  None \<Rightarrow> 0 | Some c \<Rightarrow> score_total c)
                               (case map_of (result_of (calculate_centrality_metrics dc bc) s) n2 of
                                  None \<Rightarrow> 0 | Some c \<Rightarrow> score_total c)
          \<and> r = ''Intereses: '' @
                   join '', '' (sorted_list_of_fset (intereses info1 |\<inter>| intereses info2)))
     \<and> (intereses info1 |\<inter>| intereses info2 \<noteq> {||} \<and> int k \<le> top_n \<longrightarrow>
          (\<exists>sc r. (n1, n2, sc, r) \<in> set out))
     \<and> length out = (if 0 \<le> top_n then min (nat top_n) k else k - nat (- top_n))
     \<and> (\<forall>a b sc r. (a, b, sc, r) \<in> set out \<longrightarrow>
          (a, b) \<in> set (pairs_after
                    (filter (\<lambda>n. n \<notin> removed_nodes s) (keys (nodes s))))
          \<and> normalize_pair a b \<notin> set (collaborations s))"
proof -
  let ?cent = "result_of (calculate_centrality_metrics dc bc) s"
  let ?ps = "pairs_after (filter (\<lambda>n. n \<notin> removed_nodes s) (keys (nodes s)))"
  let ?all = "concat (map (suggested_entries s ?cent) ?ps)"
  let ?out = "slice_to top_n (sort_key (\<lambda>(n1, n2, score, reason). - score) ?all)"
  let ?common = "intereses info1 |\<inter>| intereses info2"
  let ?sc = "of_nat (fcard ?common)
               / of_nat (max (fcard (intereses info1)) (fcard (intereses info2)))
             + (1 / 2) * max (cent_of ?cent n1) (cent_of ?cent n2)"
  let ?r = "''Intereses: '' @ join '', '' (sorted_list_of_fset ?common)"
  have res: "result_of (suggest_gap_filling_connections dc bc top_n) s = Inr ?out"
    by (simp add: result_of_def run_suggest)
  have count: "length ?all = k"
    unfolding k by (rule number_of_suggestions)
  have mine: "suggested_entries s ?cent (n1, n2) = gap_entry ?cent n1 info1 n2 info2"
    using i1 i2 new by (simp add: suggested_entries_eq)
  have in_all: "(n1, n2, sc, r) \<in> set ?all \<longleftrightarrow>
                (n1, n2, sc, r) \<in> set (gap_entry ?cent n1 info1 n2 info2)" for sc r
  proof
    assume "(n1, n2, sc, r) \<in> set ?all"
    then obtain p where "(n1, n2, sc, r) \<in> set (suggested_entries s ?cent p)" by auto
    moreover from this have "p = (n1, n2)" by (rule suggested_entries_names)
    ultimately show "(n1, n2, sc, r) \<in> set (gap_entry ?cent n1 info1 n2 info2)"
      by (simp add: mine)
  next
    assume "(n1, n2, sc, r) \<in> set (gap_entry ?cent n1 info1 n2 info2)"
    with enum mine show "(n1, n2, sc, r) \<in> set ?all" by force
  qed
  have out_sub: "set ?out \<subseteq> set ?all"
    using set_slice_to [of top_n "sort_key (\<lambda>(n1, n2, score, reason). - score) ?all"] by simp
  have empty: "?common = {||} \<longrightarrow> (\<forall>sc r. (n1, n2, sc, r) \<notin> set ?out)"
    using out_sub in_all by (auto simp: gap_entry_empty)
  have scored: "\<forall>sc r. (n1, n2, sc, r) \<in> set ?out \<longrightarrow> sc = ?sc \<and> r = ?r"
  proof (intro allI impI)
    fix sc r
    assume "(n1, n2, sc, r) \<in> set ?out"
    with out_sub in_all have m: "(n1, n2, sc, r) \<in> set (gap_entry ?cent n1 info1 n2 info2)"
      by blast
    then have "?common \<noteq> {||}" by (auto simp: gap_entry_empty)
    with m show "sc = ?sc \<and> r = ?r" by (simp add: gap_entry_nonempty)
  qed
  have present: "?common \<noteq> {||} \<and> int k \<le> top_n \<longrightarrow>
                 (\<exists>sc r. (n1, n2, sc, r) \<in> set ?out)"
  proof
    assume h: "?common \<noteq> {||} \<and> int k \<le> top_n"
    with count have "?out = sort_key (\<lambda>(n1, n2, score, reason). - score) ?all"
      by (intro slice_to_all) simp
    moreover have "(n1, n2, ?sc, ?r) \<in> set ?all"
      using h by (simp only: in_all) (simp add: gap_entry_nonempty)
    ultimately have "(n1, n2, ?sc, ?r) \<in> set ?out" by simp
    then show "\<exists>sc r. (n1, n2, sc, r) \<in> set ?out" by blast
  qed
  have len: "length ?out = (if 0 \<le> top_n then min (nat top_n) k else k - nat (- top_n))"
    by (simp add: length_slice_to count)
  have scope: "\<forall>a b sc r. (a, b, sc, r) \<in> set ?out \<longrightarrow>
                 (a, b) \<in> set ?ps \<and> normalize_pair a b \<notin> set (collaborations s)"
  proof (intro allI impI)
    fix a b sc r
    assume "(a, b, sc, r) \<in> set ?out"
    with out_sub obtain p where p: "p \<in> set ?ps"
      and m: "(a, b, sc, r) \<in> set (suggested_entries s ?cent p)" by auto
    from m have eq: "p = (a, b)" by (rule suggested_entries_names)
    from m eq have "length (suggested_entries s ?cent (a, b)) \<noteq> 0" by auto
    then have "normalize_pair a b \<notin> set (collaborations s)"
      by (simp add: length_suggested_entries_eq split: if_splits)
    with p eq show "(a, b) \<in> set ?ps \<and> normalize_pair a b \<notin> set (collaborations s)"
      by simp
  qed
  from res empty scored present len scope show ?thesis
    by (intro exI [of _ ?out]) (simp add: cent_of_cases)
qed

lemma active_graph_gap_example:
  "active_graph gap_example =
     \<lparr>g_nodes = [''A'', ''B'', ''C'', ''D''], g_edges = [(''A'', ''B'')]\<rparr>"
  by (simp add: active_graph_def gap_example_def keys_def empty_graph_def add_node_def
      add_edge_def has_edge_def)

lemma centrality_gap_example:
  "result_of (calculate_centrality_metrics gap_example_degree gap_example_betweenness) gap_example =
     [(''A'', \<lparr>grado = 1 / 3, intermediacion = 0, score_total = 1 / 6\<rparr>),
      (''B'', \<lparr>grado = 1 / 3, intermediacion = 0, score_total = 1 / 6\<rparr>),
      (''C'', \<lparr>grado = 0, intermediacion = 0, score_total = 0\<rparr>),
      (''D'', \<lparr>grado = 0, intermediacion = 0, score_total = 0\<rparr>)]"
  by (simp add: result_of_def calculate_centrality_metrics_def active_graph_gap_example
      number_of_nodes_def number_of_edges_def get_or0_def gap_example_degree_def
      gap_example_betweenness_def)

theorem gap_filling_spec_witness:
  "\<exists>out. result_of (suggest_gap_filling_connections gap_example_degree gap_example_betweenness 2)
            gap_example = Inr out
     \<and> (''A'', ''C'', 1 + 1 / 12, ''Intereses: x, y'') \<in> set out
     \<and> (\<forall>sc r. (''A'', ''D'', sc, r) \<notin> set out)
     \<and> length out = 2"
proof -
  let ?run = "result_of
     (suggest_gap_filling_connections gap_example_degree gap_example_betweenness 2) gap_example"
  have act: "filter (\<lambda>n. n \<notin> removed_nodes gap_example) (keys (nodes gap_example)) =
             [''A'', ''B'', ''C'', ''D'']"
    by (simp add: gap_example_def keys_def)
  have cs: "collaborations gap_example = [(''A'', ''B'')]" by (simp add: gap_example_def)
  have A: "map_of (nodes gap_example) ''A'' = Some \<lparr>carrera = ''eng'', intereses = {|''x'', ''y''|}\<rparr>"
    and B: "map_of (nodes gap_example) ''B'' = Some \<lparr>carrera = ''med'', intereses = {|''y'', ''z''|}\<rparr>"
    and C: "map_of (nodes gap_example) ''C'' = Some \<lparr>carrera = ''med'', intereses = {|''y'', ''x''|}\<rparr>"
    and D: "map_of (nodes gap_example) ''D'' = Some \<lparr>carrera = ''eco'', intereses = {|''w''|}\<rparr>"
    by (simp_all add: gap_example_def)
  have AC: "{|''x'', ''y''|} |\<inter>| {|''y'', ''x''|} = {|''x'', ''y''|}" by auto
  have AD: "{|''x'', ''y''|} |\<inter>| {|''w''|} = {||}" by auto
  have BC: "{|''y'', ''z''|} |\<inter>| {|''y'', ''x''|} = {|''y''|}" by auto
  have BD: "{|''y'', ''z''|} |\<inter>| {|''w''|} = {||}" by auto
  have CD: "{|''y'', ''x''|} |\<inter>| {|''w''|} = {||}" by auto
  have srt: "sorted_list_of_fset {|''x'', ''y''|} = [''x'', ''y'']"
    by (simp add: sorted_list_of_fset.rep_eq)
  have k: "(2::nat) = length (filter
                (\<lambda>(a, b). normalize_pair a b \<notin> set (collaborations gap_example)
                   \<and> (case (map_of (nodes gap_example) a, map_of (nodes gap_example) b) of
                         (Some i, Some j) \<Rightarrow> intereses i |\<inter>| intereses j \<noteq> {||}
                       | _ \<Rightarrow> False))
                (pairs_after (filter (\<lambda>n. n \<notin> removed_nodes gap_example)
                   (keys (nodes gap_example)))))"
    by (simp add: act cs normalize_pair_def A B C D AC AD BC BD CD)
  from gap_filling_spec [of "''A''" "''C''" gap_example _ _ 2
      gap_example_degree gap_example_betweenness 2, OF _ _ A C k]
  obtain out where out: "?run = Inr out"
    and "\<exists>sc r. (''A'', ''C'', sc, r) \<in> set out"
    and "\<forall>sc r. (''A'', ''C'', sc, r) \<in> set out \<longrightarrow>
           sc = 1 + 1 / 12 \<and> r = ''Intereses: x, y''"
    and len: "length out = 2"
    by (auto simp: act cs normalize_pair_def AC srt centrality_gap_example fcard_finsert_if
        fcard_fempty)
  then have 1: "(''A'', ''C'', 1 + 1 / 12, ''Intereses: x, y'') \<in> set out" by blast
  from gap_filling_spec [of "''A''" "''D''" gap_example _ _ 2
      gap_example_degree gap_example_betweenness 2, OF _ _ A D k]
  have 2: "\<forall>sc r. (''A'', ''D'', sc, r) \<notin> set out"
    using out by (auto simp: act cs normalize_pair_def AD)
  from out 1 2 len show ?thesis by blast
qed

subsection \<open>The two queries do not write\<close>

text \<open>
  Claim C9. For every store and every \<open>top_n\<close>, the store after
  \<^verbatim>\<open>recommend_interdisciplinary_connections\<close> and the store after
  \<^verbatim>\<open>suggest_gap_filling_connections\<close> is the store before: the dictionary of
  people, the list of collaborations and the removal set are unchanged.
\<close>

theorem queries_read_only:
  "store_after (recommend_interdisciplinary_connections top_n) s = s
   \<and> store_after (suggest_gap_filling_connections dc bc top_n) s = s"
  by (simp add: store_after_def run_recommend run_suggest)

theorem queries_read_only_witness:
  "store_after (recommend_interdisciplinary_connections 8) without_Ana = without_Ana
   \<and> store_after (suggest_gap_filling_connections gap_example_degree gap_example_betweenness 10)
        gap_example = gap_example"
  using queries_read_only [of 8 without_Ana]
    queries_read_only [of 10 gap_example gap_example_degree gap_example_betweenness]
  by simp

subsection \<open>Recommendations and removed people\<close>

text \<open>
  Every recommended pair is one that the loops enumerate from the keys of
  \<^verbatim>\<open>nodes\<close>, is not a stored collaboration and carries its positive score
  (\<open>recommended_not_collaboration\<close> above); and every such pair is recommended when
  \<open>top_n\<close> does not cut the list. Whether a name is removed plays no part.
\<close>

lemma recommend_complete:
  assumes enum: "(n1, n2) \<in> set (pairs_after (keys (nodes s)))"
    and new: "normalize_pair n1 n2 \<notin> set (collaborations s)"
    and pos: "0 < result_of (calculate_interdisciplinary_score n1 n2) s"
    and all: "int (length (pairs_after (keys (nodes s)))) \<le> top_n"
  shows "(n1, n2, result_of (calculate_interdisciplinary_score n1 n2) s)
           \<in> set (result_of (recommend_interdisciplinary_connections top_n) s)"
proof -
  let ?ps = "pairs_after (keys (nodes s))"
  let ?all = "concat (map (\<lambda>p. result_of (recommend_body p) s) ?ps)"
  have "length (result_of (recommend_body p) s) \<le> 1" for p
    by (cases p) (simp add: result_of_def run_recommend_body)
  then have "length ?all \<le> length ?ps" by (rule length_pairs_after_le)
  with all have "result_of (recommend_interdisciplinary_connections top_n) s =
      sort_key (\<lambda>(n1, n2, score). - score) ?all"
    by (simp add: result_of_def run_recommend slice_to_all)
  moreover have "(n1, n2, result_of (calculate_interdisciplinary_score n1 n2) s)
      \<in> set (result_of (recommend_body (n1, n2)) s)"
    using new pos by (simp add: result_of_def run_recommend_body)
  with enum have "(n1, n2, result_of (calculate_interdisciplinary_score n1 n2) s) \<in> set ?all"
    by force
  ultimately show ?thesis by simp
qed

lemma nodes_seeded:
  "nodes seeded = map (\<lambda>(n, c, i). (n, \<lparr>carrera = c, intereses = i\<rparr>)) example"
  by (simp add: seeded_def seeded_nodes)

text \<open>
  Claim C1 asks that no recommendation has a removed name as an endpoint. The code
  does otherwise: in the store with the example data, after the simulated removal of
  Ana, the eight recommendations that the window asks for end with the pair
  (Ana, Luis).
\<close>

theorem removed_person_recommended:
  "reachable without_Ana
   \<and> ''Ana'' \<in> removed_nodes without_Ana
   \<and> result_of (recommend_interdisciplinary_connections 8) without_Ana =
       [(Sofia, ''Laura'', 4), (''Jorge'', ''Laura'', 7 / 2), (Maria, Sofia, 17 / 5),
        (Maria, ''Luis'', 3), (Maria, ''Elena'', 3), (Maria, ''Jorge'', 3),
        (Maria, ''Laura'', 3), (''Ana'', ''Luis'', 3)]"
proof -
  have "result_of (recommend_interdisciplinary_connections 8) without_Ana =
       [(Sofia, ''Laura'', 4), (''Jorge'', ''Laura'', 7 / 2), (Maria, Sofia, 17 / 5),
        (Maria, ''Luis'', 3), (Maria, ''Elena'', 3), (Maria, ''Jorge'', 3),
        (Maria, ''Laura'', 3), (''Ana'', ''Luis'', 3)]"
    by (simp add: result_of_def run_recommend run_recommend_body nodes_seeded
        without_Ana_eq seeded_collabs keys_def example_def Maria_def Sofia_def
        normalize_pair_def calculate_interdisciplinary_score_def fcard_finsert_if
        fcard_fempty slice_to_def Let_def)
  moreover have "''Ana'' \<in> removed_nodes without_Ana" by (simp add: without_Ana_eq)
  ultimately show ?thesis using reachable_without_Ana_Maria by simp
qed

end
